theory Spec2Isabelle
  imports Complex_Main
begin

section \<open>Data model\<close>

text \<open>
  A sample matrix is a list of rows. numpy floats are idealised as extended reals:
  a real number or one of the two infinities, which \<open>np.log\<close> produces at zero.
  Rounding is outside this model, and so is NaN as a score or as a threshold that the
  caller passes.
\<close>

type_synonym matrix = "real list list"

datatype npfloat = NInf | Fin real | PInf

instantiation npfloat :: linorder
begin

fun less_eq_npfloat :: "npfloat \<Rightarrow> npfloat \<Rightarrow> bool" where
  "less_eq_npfloat NInf _ = True"
| "less_eq_npfloat (Fin x) NInf = False"
| "less_eq_npfloat (Fin x) (Fin y) = (x \<le> y)"
| "less_eq_npfloat (Fin x) PInf = True"
| "less_eq_npfloat PInf PInf = True"
| "less_eq_npfloat PInf _ = False"

definition less_npfloat :: "npfloat \<Rightarrow> npfloat \<Rightarrow> bool" where
  "less_npfloat a b = (a \<le> b \<and> \<not> b \<le> a)"

instance
proof
  fix x y z :: npfloat
  show "(x < y) = (x \<le> y \<and> \<not> y \<le> x)"
    by (simp add: less_npfloat_def)
  show "x \<le> x"
    by (cases x) simp_all
  show "x \<le> y \<Longrightarrow> y \<le> z \<Longrightarrow> x \<le> z"
    by (cases x; cases y; cases z) simp_all
  show "x \<le> y \<Longrightarrow> y \<le> x \<Longrightarrow> x = y"
    by (cases x; cases y) simp_all
  show "x \<le> y \<or> y \<le> x"
    by (cases x; cases y) auto
qed

end

text \<open>
  A value that numpy computes from scores may also be NaN. Scores themselves stay extended
  reals; NaN arises below only as a percentile taken at infinite scores, and so as a fitted
  threshold.
\<close>

datatype np_result = NaN | Num npfloat

text \<open>
  The exceptions of the source, as values. \<open>_check_params\<close> and \<open>check_array\<close> both
  raise \<open>ValueError\<close>; they are kept apart by the place that raises them
  (\<open>InvalidParameter\<close>, \<open>InvalidInput\<close>). \<open>check_is_fitted\<close> raises
  \<open>NotFittedError\<close>. \<open>LibraryError\<close> is a \<open>ValueError\<close> raised inside numpy or
  scikit-learn, \<open>MissingAttribute\<close> the \<open>AttributeError\<close> of reading an attribute
  that was never assigned, and \<open>CapabilityNotSupported\<close> the \<open>AttributeError\<close> of
  \<open>if_delegate_has_method\<close>.
\<close>

datatype error =
  InvalidParameter | InvalidInput | NotFittedError | LibraryError | MissingAttribute
  | CapabilityNotSupported

text \<open>
  A method that mutates \<open>self\<close> and may raise returns its outcome together with the
  object as the call leaves it, so that what a raised exception leaves behind is visible.
\<close>

type_synonym ('a, 's) outcome = "(error + 'a) \<times> 's"

subsection \<open>Library routines used by the detectors\<close>

text \<open>
  \<open>sklearn.utils.check_array\<close> with its defaults: a two-dimensional array (all rows of
  one length) with at least one sample and at least one feature; finiteness holds by type.
\<close>

definition n_features_of :: "matrix \<Rightarrow> nat" where
  "n_features_of X = (case X of [] \<Rightarrow> 0 | r # _ \<Rightarrow> length r)"

definition well_formed :: "matrix \<Rightarrow> bool" where
  "well_formed X = (X \<noteq> [] \<and> 0 < n_features_of X \<and> list_all (\<lambda>r. length r = n_features_of X) X)"

definition check_array :: "matrix \<Rightarrow> error + matrix" where
  "check_array X = (if well_formed X then Inr X else Inl InvalidInput)"

definition is_fin :: "npfloat \<Rightarrow> bool" where
  "is_fin a = (case a of Fin _ \<Rightarrow> True | _ \<Rightarrow> False)"

definition the_fin :: "npfloat \<Rightarrow> real" where
  "the_fin a = (case a of Fin x \<Rightarrow> x | _ \<Rightarrow> 0)"

text \<open>
  Modelled from the spec: IEEE arithmetic on floats with NaN, as numpy computes with
  them. A sum of opposite infinities and a product of an infinity and 0 are NaN, an
  infinity otherwise absorbs, and NaN propagates.
\<close>

definition ieee_add :: "np_result \<Rightarrow> np_result \<Rightarrow> np_result" where
  "ieee_add x y =
     (case (x, y) of
        (Num (Fin a), Num (Fin b)) \<Rightarrow> Num (Fin (a + b))
      | (Num (Fin a), Num j) \<Rightarrow> Num j
      | (Num i, Num (Fin b)) \<Rightarrow> Num i
      | (Num i, Num j) \<Rightarrow> if i = j then Num i else NaN
      | _ \<Rightarrow> NaN)"

definition ieee_neg :: "np_result \<Rightarrow> np_result" where
  "ieee_neg x =
     (case x of
        NaN \<Rightarrow> NaN
      | Num NInf \<Rightarrow> Num PInf
      | Num (Fin a) \<Rightarrow> Num (Fin (- a))
      | Num PInf \<Rightarrow> Num NInf)"

definition ieee_times :: "np_result \<Rightarrow> real \<Rightarrow> np_result" where
  "ieee_times x w =
     (case x of
        NaN \<Rightarrow> NaN
      | Num (Fin a) \<Rightarrow> Num (Fin (a * w))
      | Num i \<Rightarrow> if w = 0 then NaN else if 0 < w then Num i else ieee_neg (Num i))"

text \<open>
  Modelled from the spec: \<open>np.percentile\<close> is numpy's, not the repository's; the spec asks
  for the standard linear-interpolation percentile. With the values sorted and \<open>n\<close> of
  them, the virtual index is \<open>(n - 1) * q / 100\<close> and the result interpolates between the
  two order statistics around it. numpy raises \<open>ValueError\<close> for \<open>q\<close> outside
  \<open>[0, 100]\<close>. The interpolation between the neighbours \<open>a\<close> and \<open>b\<close> at the fraction
  \<open>f\<close> of the index, \<open>0 \<le> f < 1\<close>, is numpy's: with \<open>d = b - a\<close> it is \<open>a + d * f\<close> for
  \<open>f < 1 / 2\<close> and \<open>b - d * (1 - f)\<close> otherwise. Between two finite neighbours both are
  the real number \<open>a + f * (b - a)\<close>; between two equal infinities \<open>d\<close> and the result
  are NaN. The weights formula \<open>a * (1 - f) + b * f\<close> of earlier numpy releases agrees
  with it between finite neighbours, and between two equal infinities at \<open>f = 0\<close>.
  An empty input, where numpy returns NaN or raises depending on its release, is an error
  in the model.
\<close>

definition lerp :: "npfloat \<Rightarrow> npfloat \<Rightarrow> real \<Rightarrow> np_result" where
  "lerp a b f =
     (let d = ieee_add (Num b) (ieee_neg (Num a))
      in if f < 1 / 2 then ieee_add (Num a) (ieee_times d f)
         else ieee_add (Num b) (ieee_neg (ieee_times d (1 - f))))"

definition virtual_index :: "nat \<Rightarrow> real \<Rightarrow> real" where
  "virtual_index n q = (real n - 1) * q / 100"

definition np_percentile :: "npfloat list \<Rightarrow> real \<Rightarrow> error + np_result" where
  "np_percentile a q =
     (if \<not> (0 \<le> q \<and> q \<le> 100) \<or> a = [] then Inl LibraryError
      else let s = sort a;
               h = virtual_index (length a) q;
               lo = nat \<lfloor>h\<rfloor>;
               hi = min (lo + 1) (length a - 1)
           in Inr (lerp (s ! lo) (s ! hi) (h - real lo)))"

text \<open>
  Modelled from the spec: the score normalizer is scikit-learn's \<open>MinMaxScaler\<close> with
  the default range \<open>[0, 1]\<close>. \<open>fit\<close> keeps \<open>scale = 1 / (max - min)\<close>, with a zero
  range replaced by 1, and \<open>min = - data_min * scale\<close>; \<open>transform\<close> computes
  \<open>x * scale + min\<close>. Both validate their input and raise \<open>ValueError\<close> on a value
  that is not finite.
\<close>

record minmax_scaler =
  sc_scale :: real
  sc_min :: real

definition handle_zeros_in_scale :: "real \<Rightarrow> real" where
  "handle_zeros_in_scale r = (if r = 0 then 1 else r)"

definition scaler_fit :: "npfloat list \<Rightarrow> error + minmax_scaler" where
  "scaler_fit a =
     (if a = [] \<or> \<not> list_all is_fin a then Inl LibraryError
      else let xs = map the_fin a;
               data_min = Min (set xs);
               data_max = Max (set xs);
               sc = 1 / handle_zeros_in_scale (data_max - data_min)
           in Inr \<lparr>sc_scale = sc, sc_min = 0 - data_min * sc\<rparr>)"

definition scaler_transform :: "minmax_scaler \<Rightarrow> npfloat list \<Rightarrow> error + real list" where
  "scaler_transform sc a =
     (if a = [] \<or> \<not> list_all is_fin a then Inl LibraryError
      else Inr (map (\<lambda>v. the_fin v * sc_scale sc + sc_min sc) a))"


section \<open>The estimator template: \<open>BaseOutlierDetector\<close>\<close>

text \<open>
  The attributes of a detector object. \<open>model\<close> stands for whatever the concrete subtype
  keeps in \<open>self\<close>; the three fitted attributes \<open>anomaly_score_\<close>, \<open>threshold_\<close> and
  \<open>_scaler\<close> are absent (\<open>None\<close>) until \<open>fit\<close> assigns them. \<open>fit_time_\<close> and
  \<open>verbose\<close> only feed a printed message and are left out.
\<close>

record 'm detector =
  contamination :: real
  model :: 'm
  anomaly_score_attr :: "npfloat list option"
  threshold_attr :: "np_result option"
  scaler_attr :: "minmax_scaler option"

text \<open>The two abstract methods \<open>_fit\<close> and \<open>_anomaly_score\<close> of a concrete subtype.\<close>

record 'm subtype =
  fit_hook :: "'m \<Rightarrow> matrix \<Rightarrow> error + 'm"
  anomaly_score_hook :: "'m \<Rightarrow> matrix \<Rightarrow> error + npfloat list"

definition check_params :: "'m detector \<Rightarrow> error + unit" where
  "check_params d =
     (if \<not> (0 \<le> contamination d \<and> contamination d \<le> 0.5) then Inl InvalidParameter
      else Inr ())"

definition get_threshold :: "'m detector \<Rightarrow> error + np_result" where
  "get_threshold d =
     (case anomaly_score_attr d of
        None \<Rightarrow> Inl MissingAttribute
      | Some a \<Rightarrow> np_percentile a (100 * (1 - contamination d)))"

text \<open>
  \<open>fit\<close>, step by step in the order of the source. Each assignment to \<open>self\<close> is an
  update of the state, so the state returned with a failure holds what was assigned before
  the step that raised. A \<open>_fit\<close> that raises is taken to leave the subtype's attributes as
  they were.
\<close>

definition fit :: "'m subtype \<Rightarrow> 'm detector \<Rightarrow> matrix \<Rightarrow> (unit, 'm detector) outcome" where
  "fit h d X =
     (case check_params d of
        Inl e \<Rightarrow> (Inl e, d)
      | Inr _ \<Rightarrow>
     (case check_array X of
        Inl e \<Rightarrow> (Inl e, d)
      | Inr X1 \<Rightarrow>
     (case fit_hook h (model d) X1 of
        Inl e \<Rightarrow> (Inl e, d)
      | Inr m \<Rightarrow> let d1 = d\<lparr>model := m\<rparr> in
     (case anomaly_score_hook h (model d1) X1 of
        Inl e \<Rightarrow> (Inl e, d1)
      | Inr a \<Rightarrow> let d2 = d1\<lparr>anomaly_score_attr := Some a\<rparr> in
     (case get_threshold d2 of
        Inl e \<Rightarrow> (Inl e, d2)
      | Inr t \<Rightarrow> let d3 = d2\<lparr>threshold_attr := Some t\<rparr> in
     (case scaler_fit a of
        Inl e \<Rightarrow> (Inl e, d3)
      | Inr sc \<Rightarrow> (Inr (), d3\<lparr>scaler_attr := Some sc\<rparr>)))))))"

text \<open>
  \<open>anomaly_score\<close> assigns nothing to \<open>self\<close>, so it returns its outcome alone. The
  normalized scores are finite by construction.
\<close>

definition anomaly_score :: "'m subtype \<Rightarrow> 'm detector \<Rightarrow> matrix \<Rightarrow> bool \<Rightarrow> error + npfloat list" where
  "anomaly_score h d X normalized =
     (case scaler_attr d of
        None \<Rightarrow> Inl NotFittedError
      | Some sc \<Rightarrow>
     (case check_array X of
        Inl e \<Rightarrow> Inl e
      | Inr X1 \<Rightarrow>
     (case anomaly_score_hook h (model d) X1 of
        Inl e \<Rightarrow> Inl e
      | Inr a \<Rightarrow>
          if normalized then
            (case scaler_transform sc a of Inl e \<Rightarrow> Inl e | Inr r \<Rightarrow> Inr (map Fin r))
          else Inr a)))"

text \<open>
  \<open>np.where(anomaly_score <= threshold, 1, -1)\<close> on one score. Against a NaN threshold
  the comparison is false.
\<close>

definition label :: "np_result \<Rightarrow> npfloat \<Rightarrow> int" where
  "label t a = (case t of NaN \<Rightarrow> - 1 | Num u \<Rightarrow> if a \<le> u then 1 else - 1)"

text \<open>
  \<open>predict\<close>. A threshold that the caller supplies is a number; without one the fitted
  \<open>threshold_\<close> is read, whatever \<open>fit\<close> left there.
\<close>

definition predict :: "'m subtype \<Rightarrow> 'm detector \<Rightarrow> matrix \<Rightarrow> npfloat option \<Rightarrow> error + int list" where
  "predict h d X threshold =
     (case anomaly_score h d X False of
        Inl e \<Rightarrow> Inl e
      | Inr a \<Rightarrow>
     (case (case threshold of None \<Rightarrow> threshold_attr d | Some t \<Rightarrow> Some (Num t)) of
        None \<Rightarrow> Inl MissingAttribute
      | Some t \<Rightarrow> Inr (map (label t) a)))"

definition fit_predict :: "'m subtype \<Rightarrow> 'm detector \<Rightarrow> matrix \<Rightarrow> (int list, 'm detector) outcome" where
  "fit_predict h d X =
     (case fit h d X of
        (Inl e, d1) \<Rightarrow> (Inl e, d1)
      | (Inr _, d1) \<Rightarrow> (predict h d1 X None, d1))"

text \<open>The number of samples that a list of labels flags as outliers.\<close>

definition outlier_count :: "int list \<Rightarrow> nat" where
  "outlier_count ys = length (filter (\<lambda>y. y = - 1) ys)"

text \<open>A freshly constructed detector: \<open>__init__\<close> stores the parameters and nothing else.\<close>

definition new_detector :: "real \<Rightarrow> 'm \<Rightarrow> 'm detector" where
  "new_detector c m =
     \<lparr>contamination = c, model = m, anomaly_score_attr = None, threshold_attr = None,
      scaler_attr = None\<rparr>"

section \<open>The k-nearest-neighbour detector: \<open>EmpiricalOutlierDetector\<close>\<close>

text \<open>
  Modelled from the spec: the nearest-neighbour index is scikit-learn's
  \<open>NearestNeighbors\<close>, an external collaborator. It enters as a pair of functions:
  \<open>nn_fit n_jobs n_neighbors p X\<close> builds an index, and \<open>nn_kneighbors index X\<close> returns,
  for each row of \<open>X\<close>, the distances to its nearest neighbours in the fitted set. Either
  may raise.
\<close>

record 'i nn_library =
  nn_fit :: "int \<Rightarrow> nat \<Rightarrow> int \<Rightarrow> matrix \<Rightarrow> error + 'i"
  nn_kneighbors :: "'i \<Rightarrow> matrix \<Rightarrow> error + real list list"

record 'i empirical_detector =
  fpr :: real
  n_jobs :: int
  n_neighbors :: nat
  p_param :: int
  neigh :: "'i option"
  emp_threshold :: "np_result option"

text \<open>
  The arithmetic of the scoring line. \<open>np.log\<close> is \<open>-inf\<close> at zero; its arguments here
  are a neighbour count and a distance, so negative arguments do not arise. The operand
  pairs that IEEE arithmetic sends to NaN (\<open>inf - inf\<close>, \<open>0 * inf\<close>) have no extended real
  value; there \<open>np_add\<close> returns its left operand and \<open>np_scale\<close> returns zero.
\<close>

definition np_log :: "real \<Rightarrow> npfloat" where
  "np_log x = (if x = 0 then NInf else Fin (ln x))"

definition np_neg :: "npfloat \<Rightarrow> npfloat" where
  "np_neg a = (case a of NInf \<Rightarrow> PInf | Fin x \<Rightarrow> Fin (- x) | PInf \<Rightarrow> NInf)"

definition np_add :: "npfloat \<Rightarrow> npfloat \<Rightarrow> npfloat" where
  "np_add a b =
     (case (a, b) of
        (Fin x, Fin y) \<Rightarrow> Fin (x + y)
      | (Fin x, _) \<Rightarrow> b
      | _ \<Rightarrow> a)"

definition np_scale :: "nat \<Rightarrow> npfloat \<Rightarrow> npfloat" where
  "np_scale n a =
     (case a of Fin x \<Rightarrow> Fin (real n * x) | _ \<Rightarrow> if n = 0 then Fin 0 else a)"

text \<open>\<open>np.max(dist, axis=1)\<close>: the maximum of each row; numpy raises on an empty row.\<close>

definition np_max_rows :: "real list list \<Rightarrow> error + real list" where
  "np_max_rows dists =
     (if list_ex (\<lambda>r. r = []) dists then Inl LibraryError
      else Inr (map (\<lambda>r. Max (set r)) dists))"

definition score_of_radius :: "nat \<Rightarrow> nat \<Rightarrow> real \<Rightarrow> npfloat" where
  "score_of_radius k n radius = np_add (np_neg (np_log (real k))) (np_scale n (np_log radius))"

text \<open>
  The decorators \<open>assign_info_on_pandas_obj\<close> and \<open>construct_pandas_obj\<close> convert to and
  from labelled tables; on a plain matrix they change nothing and are left out.
\<close>

definition emp_anomaly_score ::
    "'i nn_library \<Rightarrow> 'i empirical_detector \<Rightarrow> matrix \<Rightarrow> error + npfloat list" where
  "emp_anomaly_score lib e X =
     (case neigh e of
        None \<Rightarrow> Inl NotFittedError
      | Some idx \<Rightarrow>
     (case check_array X of
        Inl err \<Rightarrow> Inl err
      | Inr X1 \<Rightarrow>
     (case nn_kneighbors lib idx X1 of
        Inl err \<Rightarrow> Inl err
      | Inr dists \<Rightarrow>
     (case np_max_rows dists of
        Inl err \<Rightarrow> Inl err
      | Inr radius \<Rightarrow>
          Inr (map (score_of_radius (n_neighbors e) (n_features_of X1)) radius)))))"

definition emp_fit ::
    "'i nn_library \<Rightarrow> 'i empirical_detector \<Rightarrow> matrix \<Rightarrow> (unit, 'i empirical_detector) outcome" where
  "emp_fit lib e X =
     (case check_array X of
        Inl err \<Rightarrow> (Inl err, e)
      | Inr X1 \<Rightarrow>
     (case nn_fit lib (n_jobs e) (n_neighbors e) (p_param e) X1 of
        Inl err \<Rightarrow> (Inl err, e)
      | Inr idx \<Rightarrow> let e1 = e\<lparr>neigh := Some idx\<rparr> in
     (case emp_anomaly_score lib e1 X1 of
        Inl err \<Rightarrow> (Inl err, e1)
      | Inr scores \<Rightarrow>
     (case np_percentile scores (100 * (1 - fpr e)) of
        Inl err \<Rightarrow> (Inl err, e1)
      | Inr t \<Rightarrow> (Inr (), e1\<lparr>emp_threshold := Some t\<rparr>)))))"

definition new_empirical :: "real \<Rightarrow> int \<Rightarrow> nat \<Rightarrow> int \<Rightarrow> 'i empirical_detector" where
  "new_empirical f j k q =
     \<lparr>fpr = f, n_jobs = j, n_neighbors = k, p_param = q, neigh = None, emp_threshold = None\<rparr>"

text \<open>
  Modelled from the spec: a concrete index for the examples below, brute-force search
  under the Minkowski metric with power 1 (the sum of absolute coordinate differences).
  \<open>kneighbors\<close> is called with the query matrix given, so a training point is its own
  nearest neighbour, and it raises when more neighbours are asked for than there are
  training points.
\<close>

record brute_index =
  bi_k :: nat
  bi_train :: matrix

definition minkowski1 :: "real list \<Rightarrow> real list \<Rightarrow> real" where
  "minkowski1 x y = sum_list (map2 (\<lambda>a b. \<bar>a - b\<bar>) x y)"

definition brute_kneighbors :: "brute_index \<Rightarrow> matrix \<Rightarrow> error + real list list" where
  "brute_kneighbors idx X =
     (if length (bi_train idx) < bi_k idx then Inl LibraryError
      else Inr (map (\<lambda>x. take (bi_k idx) (sort (map (minkowski1 x) (bi_train idx)))) X))"

definition brute_library :: "brute_index nn_library" where
  "brute_library =
     \<lparr>nn_fit = (\<lambda>j k q X. Inr \<lparr>bi_k = k, bi_train = X\<rparr>), nn_kneighbors = brute_kneighbors\<rparr>"

text \<open>
  The spec's detector is this scorer under the estimator template: \<open>_fit\<close> builds the
  index as \<open>EmpiricalOutlierDetector.fit\<close> does, \<open>_anomaly_score\<close> is its
  \<open>anomaly_score\<close>, and the subtype's own attributes are the detector's.
\<close>

definition knn_subtype :: "'i nn_library \<Rightarrow> 'i empirical_detector subtype" where
  "knn_subtype lib =
     \<lparr>fit_hook = (\<lambda>e X.
        case nn_fit lib (n_jobs e) (n_neighbors e) (p_param e) X of
          Inl err \<Rightarrow> Inl err
        | Inr idx \<Rightarrow> Inr (e\<lparr>neigh := Some idx\<rparr>)),
      anomaly_score_hook = emp_anomaly_score lib\<rparr>"

section \<open>The pipeline: \<open>ExtendedPipeline\<close>\<close>

text \<open>
  A transform object carries its own state; \<open>fit_transform\<close> updates it and returns the
  transformed matrix, \<open>transform\<close> only reads it. A step of the pipeline is a name with a
  transform or with \<open>None\<close>.
\<close>

record 's transformer =
  t_state :: 's
  t_fit_transform :: "'s \<Rightarrow> matrix \<Rightarrow> error + ('s \<times> matrix)"
  t_transform :: "'s \<Rightarrow> matrix \<Rightarrow> error + matrix"

text \<open>
  The final estimator is an object with methods looked up by name, which is what
  \<open>if_delegate_has_method\<close> does: a method the object lacks is \<open>None\<close>.
\<close>

record ('d, 'r) final_estimator =
  fe_object :: 'd
  fe_methods :: "string \<Rightarrow> ('d \<Rightarrow> matrix \<Rightarrow> ('r, 'd) outcome) option"

record ('s, 'd, 'r) pipeline =
  steps :: "(string \<times> 's transformer option) list"
  final_name :: string
  final_estimator :: "('d, 'r) final_estimator"

text \<open>
  The loop that every scoring and detection method of the pipeline runs over
  \<open>self.steps[:-1]\<close>: a step that is \<open>None\<close> is passed over, any other is applied with
  \<open>transform\<close>.
\<close>

fun transform_chain :: "(string \<times> 's transformer option) list \<Rightarrow> matrix \<Rightarrow> error + matrix" where
  "transform_chain [] Xt = Inr Xt"
| "transform_chain ((name, None) # rest) Xt = transform_chain rest Xt"
| "transform_chain ((name, Some T) # rest) Xt =
     (case t_transform T (t_state T) Xt of
        Inl e \<Rightarrow> Inl e
      | Inr Xt1 \<Rightarrow> transform_chain rest Xt1)"

text \<open>
  The common body of \<open>anomaly_score\<close>, \<open>detect\<close>, \<open>feature_wise_anomaly_score\<close>,
  \<open>analyze\<close> and \<open>plot_anomaly_score\<close>: the capability check of the decorator, the
  transform loop, then the final estimator's method of the same name.
\<close>

definition delegate ::
    "string \<Rightarrow> ('s, 'd, 'r) pipeline \<Rightarrow> matrix \<Rightarrow> ('r, ('s, 'd, 'r) pipeline) outcome" where
  "delegate name pl X =
     (case fe_methods (final_estimator pl) name of
        None \<Rightarrow> (Inl CapabilityNotSupported, pl)
      | Some m \<Rightarrow>
     (case transform_chain (steps pl) X of
        Inl e \<Rightarrow> (Inl e, pl)
      | Inr Xt \<Rightarrow>
     (case m (fe_object (final_estimator pl)) Xt of
        (r, d1) \<Rightarrow> (r, pl\<lparr>final_estimator := (final_estimator pl)\<lparr>fe_object := d1\<rparr>\<rparr>))))"

definition pipeline_anomaly_score ::
    "('s, 'd, 'r) pipeline \<Rightarrow> matrix \<Rightarrow> ('r, ('s, 'd, 'r) pipeline) outcome" where
  "pipeline_anomaly_score = delegate ''anomaly_score''"

definition pipeline_detect ::
    "('s, 'd, 'r) pipeline \<Rightarrow> matrix \<Rightarrow> ('r, ('s, 'd, 'r) pipeline) outcome" where
  "pipeline_detect = delegate ''detect''"

definition pipeline_feature_wise_anomaly_score ::
    "('s, 'd, 'r) pipeline \<Rightarrow> matrix \<Rightarrow> ('r, ('s, 'd, 'r) pipeline) outcome" where
  "pipeline_feature_wise_anomaly_score = delegate ''feature_wise_anomaly_score''"

definition pipeline_analyze ::
    "('s, 'd, 'r) pipeline \<Rightarrow> matrix \<Rightarrow> ('r, ('s, 'd, 'r) pipeline) outcome" where
  "pipeline_analyze = delegate ''analyze''"

text \<open>
  Modelled from the spec: \<open>predict\<close> and \<open>fit_predict\<close> of the pipeline call the methods
  inherited from scikit-learn's \<open>Pipeline\<close>, which are not in the repository. By the spec,
  \<open>predict\<close> is the same transform-then-delegate operation, and the fitting variants run
  each transform's fit-then-transform in sequence, each on the output of the one before,
  and hand the result to the final estimator's method.
\<close>

definition pipeline_predict ::
    "('s, 'd, 'r) pipeline \<Rightarrow> matrix \<Rightarrow> ('r, ('s, 'd, 'r) pipeline) outcome" where
  "pipeline_predict = delegate ''predict''"

fun fit_chain ::
    "(string \<times> 's transformer option) list \<Rightarrow> matrix \<Rightarrow>
       (matrix, (string \<times> 's transformer option) list) outcome" where
  "fit_chain [] Xt = (Inr Xt, [])"
| "fit_chain ((name, None) # rest) Xt =
     (case fit_chain rest Xt of (r, rest1) \<Rightarrow> (r, (name, None) # rest1))"
| "fit_chain ((name, Some T) # rest) Xt =
     (case t_fit_transform T (t_state T) Xt of
        Inl e \<Rightarrow> (Inl e, (name, Some T) # rest)
      | Inr (s1, Xt1) \<Rightarrow>
          (case fit_chain rest Xt1 of
             (r, rest1) \<Rightarrow> (r, (name, Some (T\<lparr>t_state := s1\<rparr>)) # rest1)))"

definition fit_delegate ::
    "string \<Rightarrow> ('s, 'd, 'r) pipeline \<Rightarrow> matrix \<Rightarrow> ('r, ('s, 'd, 'r) pipeline) outcome" where
  "fit_delegate name pl X =
     (case fe_methods (final_estimator pl) name of
        None \<Rightarrow> (Inl CapabilityNotSupported, pl)
      | Some m \<Rightarrow>
     (case fit_chain (steps pl) X of
        (Inl e, steps1) \<Rightarrow> (Inl e, pl\<lparr>steps := steps1\<rparr>)
      | (Inr Xt, steps1) \<Rightarrow>
     (case m (fe_object (final_estimator pl)) Xt of
        (r, d1) \<Rightarrow>
          (r, pl\<lparr>steps := steps1,
                 final_estimator := (final_estimator pl)\<lparr>fe_object := d1\<rparr>\<rparr>))))"

definition pipeline_fit_predict ::
    "('s, 'd, 'r) pipeline \<Rightarrow> matrix \<Rightarrow> ('r, ('s, 'd, 'r) pipeline) outcome" where
  "pipeline_fit_predict = fit_delegate ''fit_predict''"

definition pipeline_fit_detect ::
    "('s, 'd, 'r) pipeline \<Rightarrow> matrix \<Rightarrow> ('r, ('s, 'd, 'r) pipeline) outcome" where
  "pipeline_fit_detect = fit_delegate ''fit_detect''"

definition pipeline_fit_analyze ::
    "('s, 'd, 'r) pipeline \<Rightarrow> matrix \<Rightarrow> ('r, ('s, 'd, 'r) pipeline) outcome" where
  "pipeline_fit_analyze = fit_delegate ''fit_analyze''"

text \<open>
  The spec's reading of the transform chain, to compare the loop with: the transforms
  that are present, in step order, each applied to the output of the one before.
\<close>

fun run_all :: "(matrix \<Rightarrow> error + matrix) list \<Rightarrow> matrix \<Rightarrow> error + matrix" where
  "run_all [] X = Inr X"
| "run_all (f # fs) X = (case f X of Inl e \<Rightarrow> Inl e | Inr X1 \<Rightarrow> run_all fs X1)"

definition present_transforms ::
    "(string \<times> 's transformer option) list \<Rightarrow> (matrix \<Rightarrow> error + matrix) list" where
  "present_transforms sts = map (\<lambda>T. t_transform T (t_state T)) (List.map_filter snd sts)"

text \<open>
  The spec's reading of a scoring or detection operation of the pipeline, to compare the
  source with: fail when the final estimator lacks the operation, else run the present
  transforms in step order and hand the result to the final estimator's operation of the
  same name.
\<close>

definition spec_operation ::
    "string \<Rightarrow> ('s, 'd, 'r) pipeline \<Rightarrow> matrix \<Rightarrow> ('r, ('s, 'd, 'r) pipeline) outcome" where
  "spec_operation name pl X =
     (case fe_methods (final_estimator pl) name of
        None \<Rightarrow> (Inl CapabilityNotSupported, pl)
      | Some m \<Rightarrow>
     (case run_all (present_transforms (steps pl)) X of
        Inl e \<Rightarrow> (Inl e, pl)
      | Inr Xt \<Rightarrow>
     (case m (fe_object (final_estimator pl)) Xt of
        (r, d1) \<Rightarrow> (r, pl\<lparr>final_estimator := (final_estimator pl)\<lparr>fe_object := d1\<rparr>\<rparr>))))"

text \<open>An identity transform: fitting it may change its state, and it returns its input.\<close>

definition identity_transform :: "'s transformer \<Rightarrow> bool" where
  "identity_transform T =
     (\<forall>s X. t_transform T s X = Inr X \<and> (\<exists>s1. t_fit_transform T s X = Inr (s1, X)))"

definition identity_or_absent :: "(string \<times> 's transformer option) list \<Rightarrow> bool" where
  "identity_or_absent sts =
     list_all (\<lambda>st. case snd st of None \<Rightarrow> True | Some T \<Rightarrow> identity_transform T) sts"

section \<open>Example objects\<close>

text \<open>
  A detector with two neighbours on three one-feature training points, used to evaluate
  the definitions on concrete inputs.
\<close>

definition example_train :: matrix where
  "example_train = [[0], [1], [3]]"

definition example_params :: "brute_index empirical_detector" where
  "example_params = new_empirical 0.01 1 2 2"

definition example_detector :: "brute_index empirical_detector detector" where
  "example_detector = new_detector 0.1 example_params"

definition example_fitted :: "brute_index empirical_detector detector" where
  "example_fitted = snd (fit (knn_subtype brute_library) example_detector example_train)"

text \<open>A one-neighbour detector whose index holds the single training point 0.\<close>

definition example_unit :: "brute_index empirical_detector" where
  "example_unit = (new_empirical 0.01 1 1 2)\<lparr>neigh := Some \<lparr>bi_k = 1, bi_train = [[0]]\<rparr>\<rparr>"



text \<open>
  A second fit of the fitted example detector on a single training point, fewer than its
  two neighbours; and two k-nearest-neighbour detectors constructed with a false positive
  rate outside \<open>[0, 0.5]\<close>, the second one as a failed fit leaves it.
\<close>

definition example_refit :: "(unit, brute_index empirical_detector detector) outcome" where
  "example_refit = fit (knn_subtype brute_library) example_fitted [[5]]"

definition example_fpr_06 :: "brute_index empirical_detector" where
  "example_fpr_06 = new_empirical 0.6 1 2 2"

definition example_fpr_15 :: "brute_index empirical_detector" where
  "example_fpr_15 = new_empirical 1.5 1 2 2"

definition example_half_fitted :: "brute_index empirical_detector" where
  "example_half_fitted = snd (emp_fit brute_library example_fpr_15 example_train)"

text \<open>Four equally spaced training points and the contamination 0.5.\<close>

definition example_four :: matrix where
  "example_four = [[0], [1], [2], [3]]"

definition example_half :: "brute_index empirical_detector detector" where
  "example_half = new_detector 0.5 example_params"

definition example_four_fitted :: "brute_index empirical_detector detector" where
  "example_four_fitted = snd (fit (knn_subtype brute_library) example_half example_four)"

text \<open>
  Four training points whose scores with three neighbours are pairwise distinct.
\<close>

definition example_spread :: matrix where
  "example_spread = [[0], [2], [8], [15]]"

definition example_three :: "brute_index empirical_detector detector" where
  "example_three = new_detector 0.1 (new_empirical 0.01 1 3 2)"

definition example_spread_fitted :: "brute_index empirical_detector detector" where
  "example_spread_fitted = snd (fit (knn_subtype brute_library) example_three example_spread)"



text \<open>
  A pipeline for the examples: an identity transform, an absent step, and the example
  detector as final estimator, with its two methods that return labels.
\<close>

definition identity_example :: "unit transformer" where
  "identity_example =
     \<lparr>t_state = (), t_fit_transform = (\<lambda>s X. Inr (s, X)), t_transform = (\<lambda>s X. Inr X)\<rparr>"

definition label_methods ::
    "'m subtype \<Rightarrow> string \<Rightarrow> ('m detector \<Rightarrow> matrix \<Rightarrow> (int list, 'm detector) outcome) option" where
  "label_methods h name =
     (if name = ''fit_predict'' then Some (fit_predict h)
      else if name = ''predict'' then Some (\<lambda>d X. (predict h d X None, d))
      else None)"

definition example_pipeline ::
    "(unit, brute_index empirical_detector detector, int list) pipeline" where
  "example_pipeline =
     \<lparr>steps = [(''identity'', Some identity_example), (''absent'', None)],
      final_name = ''detector'',
      final_estimator =
        \<lparr>fe_object = example_detector, fe_methods = label_methods (knn_subtype brute_library)\<rparr>\<rparr>"

text \<open>The k-nearest-neighbour detector fitted by its own \<open>fit\<close> on the example points.\<close>

definition example_emp_fitted :: "brute_index empirical_detector" where
  "example_emp_fitted = snd (emp_fit brute_library example_params example_train)"

section \<open>Evaluation of the examples\<close>

lemma lerp_Fin: "lerp (Fin x) (Fin y) f = Num (Fin (x + f * (y - x)))"
  by (simp add: lerp_def Let_def ieee_add_def ieee_neg_def ieee_times_def algebra_simps)


lemmas library_defs =
  check_array_def well_formed_def n_features_of_def np_percentile_def virtual_index_def
  lerp_Fin scaler_fit_def scaler_transform_def is_fin_def the_fin_def
  handle_zeros_in_scale_def

lemmas scoring_defs =
  emp_anomaly_score_def np_max_rows_def score_of_radius_def np_add_def np_neg_def
  np_log_def np_scale_def brute_library_def brute_kneighbors_def minkowski1_def
  knn_subtype_def new_empirical_def

lemmas template_defs =
  fit_def check_params_def get_threshold_def new_detector_def

lemma example_fit:
  "fit (knn_subtype brute_library) example_detector example_train =
     (Inr (),
      \<lparr>contamination = 1 / 10,
       model = \<lparr>fpr = 1 / 100, n_jobs = 1, n_neighbors = 2, p_param = 2,
                neigh = Some \<lparr>bi_k = 2, bi_train = [[0], [1], [3]]\<rparr>,
                emp_threshold = None\<rparr>,
       anomaly_score_attr = Some [Fin (- ln 2), Fin (- ln 2), Fin 0],
       threshold_attr = Some (Num (Fin (- (ln 2 / 5)))),
       scaler_attr = Some \<lparr>sc_scale = 1 / ln 2, sc_min = 1\<rparr>\<rparr>)"
  by (simp add: example_detector_def example_params_def example_train_def
      template_defs library_defs scoring_defs)

lemma example_fitted_eq:
  "example_fitted =
     \<lparr>contamination = 1 / 10,
      model = \<lparr>fpr = 1 / 100, n_jobs = 1, n_neighbors = 2, p_param = 2,
               neigh = Some \<lparr>bi_k = 2, bi_train = [[0], [1], [3]]\<rparr>,
               emp_threshold = None\<rparr>,
      anomaly_score_attr = Some [Fin (- ln 2), Fin (- ln 2), Fin 0],
      threshold_attr = Some (Num (Fin (- (ln 2 / 5)))),
      scaler_attr = Some \<lparr>sc_scale = 1 / ln 2, sc_min = 1\<rparr>\<rparr>"
  by (simp add: example_fitted_def example_fit)


section \<open>Scoring and prediction\<close>




text \<open>
  When the fitted threshold is NaN and the caller gives none, every comparison is false
  and every row is labelled \<open>-1\<close>.
\<close>

lemma predict_nan_threshold:
  assumes "scaler_attr d = Some sc" "well_formed X" "anomaly_score_hook h (model d) X = Inr a"
    and "threshold_attr d = Some NaN"
  shows "predict h d X None = Inr (map (\<lambda>v. - 1) a)"
  using assms by (simp add: predict_def anomaly_score_def check_array_def label_def)

lemma score_of_radius_pos:
  assumes "0 < k" "r \<noteq> 0"
  shows "score_of_radius k n r = Fin (real n * ln r - ln (real k))"
  using assms by (simp add: score_of_radius_def np_add_def np_neg_def np_log_def np_scale_def)


lemma emp_anomaly_score_rows:
  assumes "neigh e = Some idx" "well_formed X" "nn_kneighbors lib idx X = Inr dists"
    "list_all (\<lambda>r. r \<noteq> []) dists"
  shows "emp_anomaly_score lib e X =
           Inr (map (\<lambda>r. score_of_radius (n_neighbors e) (n_features_of X) (Max (set r))) dists)"
  using assms
  by (simp add: emp_anomaly_score_def check_array_def np_max_rows_def list_ex_iff list_all_iff)

lemma score_of_radius_general:
  assumes "0 < k"
  shows "score_of_radius k n r = np_add (np_scale n (np_log r)) (np_neg (np_log (real k)))"
  using assms by (simp add: score_of_radius_def np_add_def np_neg_def np_log_def np_scale_def)

text \<open>
  Claim C1. For a fitted k-nearest-neighbour detector and a valid query matrix, the raw
  score of every row is \<open>n_features * log radius - log k\<close>, where \<open>radius\<close> is the largest
  of the row's neighbour distances; for a positive radius this is the real number
  \<open>n_features * ln radius - ln k\<close>. In particular one neighbour, one feature and radius
  \<open>e\<close> give the score 1.
\<close>

theorem anomaly_score_formula:
  assumes idx: "neigh e = Some idx"
    and valid: "well_formed X"
    and kn: "nn_kneighbors lib idx X = Inr dists"
    and rows: "list_all (\<lambda>r. r \<noteq> []) dists"
    and k: "0 < n_neighbors e"
    and i: "i < length dists"
  shows "(\<exists>a. emp_anomaly_score lib e X = Inr a \<and> length a = length dists \<and>
            a ! i = np_add (np_scale (n_features_of X) (np_log (Max (set (dists ! i)))))
                           (np_neg (np_log (real (n_neighbors e)))) \<and>
            (0 < Max (set (dists ! i)) \<longrightarrow>
               a ! i = Fin (real (n_features_of X) * ln (Max (set (dists ! i)))
                            - ln (real (n_neighbors e)))))
         \<and> score_of_radius 1 1 (exp 1) = Fin 1"
proof -
  let ?a = "map (\<lambda>r. score_of_radius (n_neighbors e) (n_features_of X) (Max (set r))) dists"
  have "emp_anomaly_score lib e X = Inr ?a"
    using idx valid kn rows by (rule emp_anomaly_score_rows)
  moreover have "?a ! i = np_add (np_scale (n_features_of X) (np_log (Max (set (dists ! i)))))
                                 (np_neg (np_log (real (n_neighbors e))))"
    using i k by (simp add: score_of_radius_general)
  moreover have "0 < Max (set (dists ! i)) \<longrightarrow>
      ?a ! i = Fin (real (n_features_of X) * ln (Max (set (dists ! i))) - ln (real (n_neighbors e)))"
    using i k by (simp add: score_of_radius_pos)
  moreover have "score_of_radius 1 1 (exp 1) = Fin 1"
    by (simp add: score_of_radius_pos)
  moreover have "length ?a = length dists" by simp
  ultimately show ?thesis by blast
qed

theorem anomaly_score_formula_witness:
  "neigh example_unit = Some \<lparr>bi_k = 1, bi_train = [[0]]\<rparr> \<and>
   well_formed [[exp 1]] \<and>
   nn_kneighbors brute_library \<lparr>bi_k = 1, bi_train = [[0]]\<rparr> [[exp 1]] = Inr [[exp 1]] \<and>
   list_all (\<lambda>r. r \<noteq> []) [[exp 1 :: real]] \<and>
   0 < n_neighbors example_unit \<and> (0::nat) < length [[exp 1 :: real]] \<and>
   0 < Max (set ([[exp 1 :: real]] ! 0)) \<and>
   emp_anomaly_score brute_library example_unit [[exp 1]] = Inr [Fin 1]"
proof -
  have a: "neigh example_unit = Some \<lparr>bi_k = 1, bi_train = [[0]]\<rparr>"
    by (simp add: example_unit_def)
  have b: "well_formed [[exp 1]]"
    by (simp add: well_formed_def n_features_of_def)
  have c: "nn_kneighbors brute_library \<lparr>bi_k = 1, bi_train = [[0]]\<rparr> [[exp 1]] = Inr [[exp 1]]"
    by (simp add: brute_library_def brute_kneighbors_def minkowski1_def)
  have d: "list_all (\<lambda>r. r \<noteq> []) [[exp 1 :: real]]" by simp
  have e: "0 < n_neighbors example_unit"
    by (simp add: example_unit_def new_empirical_def)
  have f: "(0::nat) < length [[exp 1 :: real]]" by simp
  have g: "0 < Max (set ([[exp 1 :: real]] ! 0))" by simp
  from anomaly_score_formula [OF a b c d e f] g
  obtain s where s: "emp_anomaly_score brute_library example_unit [[exp 1]] = Inr s"
    "length s = 1"
    "s ! 0 = Fin (real (n_features_of [[exp 1]]) * ln (Max (set ([[exp 1]] ! 0)))
                  - ln (real (n_neighbors example_unit)))"
    by auto
  from s(3) have "s ! 0 = Fin 1"
    by (simp add: n_features_of_def example_unit_def new_empirical_def)
  with s(2) have "s = [Fin 1]" by (cases s) auto
  with s(1) a b c d e f g show ?thesis by simp
qed

section \<open>Fitting\<close>

lemma fit_success:
  assumes "fit h d X = (Inr u, d1)"
  shows "\<exists>m a t sc. 0 \<le> contamination d \<and> contamination d \<le> 0.5 \<and> well_formed X \<and>
           fit_hook h (model d) X = Inr m \<and> anomaly_score_hook h m X = Inr a \<and>
           np_percentile a (100 * (1 - contamination d)) = Inr t \<and> scaler_fit a = Inr sc \<and>
           d1 = d\<lparr>model := m, anomaly_score_attr := Some a, threshold_attr := Some t,
                  scaler_attr := Some sc\<rparr>"
  using assms
  by (auto simp: fit_def check_params_def check_array_def get_threshold_def Let_def
      split: sum.splits if_splits)

lemma fit_predict_ignores_threshold:
  "fst (fit_predict h (d\<lparr>threshold_attr := t0\<rparr>) X) = fst (fit_predict h d X)"
  by (simp add: fit_predict_def fit_def check_params_def check_array_def get_threshold_def Let_def
      predict_def anomaly_score_def
      split: sum.splits)

lemma fit_predict_success:
  assumes "fit h d X = (Inr u, d1)"
  shows "\<exists>a t. anomaly_score_attr d1 = Some a \<and> threshold_attr d1 = Some t \<and>
               np_percentile a (100 * (1 - contamination d)) = Inr t \<and>
               fit_predict h d X = (Inr (map (label t) a), d1)"
proof -
  from fit_success [OF assms] obtain m a t sc where
    *: "well_formed X" "anomaly_score_hook h m X = Inr a"
       "np_percentile a (100 * (1 - contamination d)) = Inr t"
       "d1 = d\<lparr>model := m, anomaly_score_attr := Some a, threshold_attr := Some t,
                  scaler_attr := Some sc\<rparr>"
    by blast
  have "predict h d1 X None = Inr (map (label t) a)"
    using * by (simp add: predict_def anomaly_score_def check_array_def)
  then show ?thesis using * assms by (simp add: fit_predict_def)
qed

text \<open>
  Claim C5. \<open>fit_predict\<close> is \<open>fit\<close> followed by \<open>predict\<close> with no threshold argument.
  Its outcome does not depend on a threshold the detector held before the call, and when
  the fit succeeds the labels are the training scores cut at the freshly fitted threshold.
\<close>

theorem fit_predict_composition:
  "fit_predict h d X =
     (case fit h d X of (Inl e, d1) \<Rightarrow> (Inl e, d1) | (Inr u, d1) \<Rightarrow> (predict h d1 X None, d1))
   \<and> fst (fit_predict h (d\<lparr>threshold_attr := t0\<rparr>) X) = fst (fit_predict h d X)
   \<and> (\<forall>u d1. fit h d X = (Inr u, d1) \<longrightarrow>
        (\<exists>a t. anomaly_score_attr d1 = Some a \<and> threshold_attr d1 = Some t \<and>
                np_percentile a (100 * (1 - contamination d)) = Inr t \<and>
                fit_predict h d X = (Inr (map (label t) a), d1)))"
proof (intro conjI allI impI)
  show "fit_predict h d X =
     (case fit h d X of (Inl e, d1) \<Rightarrow> (Inl e, d1) | (Inr u, d1) \<Rightarrow> (predict h d1 X None, d1))"
    by (simp add: fit_predict_def)
  show "fst (fit_predict h (d\<lparr>threshold_attr := t0\<rparr>) X) = fst (fit_predict h d X)"
    by (rule fit_predict_ignores_threshold)
  fix u d1
  assume "fit h d X = (Inr u, d1)"
  then show "\<exists>a t. anomaly_score_attr d1 = Some a \<and> threshold_attr d1 = Some t \<and>
                np_percentile a (100 * (1 - contamination d)) = Inr t \<and>
                fit_predict h d X = (Inr (map (label t) a), d1)"
    by (rule fit_predict_success)
qed

theorem fit_predict_composition_witness:
  "fit (knn_subtype brute_library) example_detector example_train = (Inr (), example_fitted) \<and>
   fit_predict (knn_subtype brute_library) example_detector example_train
     = (Inr [1, 1, - 1], example_fitted) \<and>
   fst (fit_predict (knn_subtype brute_library)
          (example_detector\<lparr>threshold_attr := Some (Num PInf)\<rparr>) example_train)
     = Inr [1, 1, - 1]"
proof -
  have f: "fit (knn_subtype brute_library) example_detector example_train = (Inr (), example_fitted)"
    by (simp add: example_fit example_fitted_eq)
  from fit_predict_composition [of "knn_subtype brute_library" example_detector example_train
      "Some (Num PInf)"] f
  obtain a t where at: "anomaly_score_attr example_fitted = Some a"
    "threshold_attr example_fitted = Some t"
    "fit_predict (knn_subtype brute_library) example_detector example_train
       = (Inr (map (label t) a), example_fitted)"
    and same: "fst (fit_predict (knn_subtype brute_library)
                 (example_detector\<lparr>threshold_attr := Some (Num PInf)\<rparr>) example_train)
               = fst (fit_predict (knn_subtype brute_library) example_detector example_train)"
    by blast
  from at(1,2) have "a = [Fin (- ln 2), Fin (- ln 2), Fin 0]" "t = Num (Fin (- (ln 2 / 5)))"
    by (simp_all add: example_fitted_eq)
  then have "map (label t) a = [1, 1, - 1]"
    by (simp add: label_def)
  with at(3) same f show ?thesis by simp
qed

section \<open>Normalized scores\<close>

lemma scaler_fit_Inr:
  assumes "scaler_fit a = Inr sc"
  shows "a \<noteq> [] \<and> list_all is_fin a \<and>
         sc_scale sc = 1 / handle_zeros_in_scale (Max (set (map the_fin a)) - Min (set (map the_fin a))) \<and>
         sc_min sc = - (Min (set (map the_fin a)) * sc_scale sc)"
  using assms by (auto simp: scaler_fit_def Let_def split: if_splits)

lemma scaler_scale_pos:
  assumes "scaler_fit a = Inr sc"
  shows "0 < sc_scale sc"
proof -
  from scaler_fit_Inr [OF assms] have ne: "a \<noteq> []"
    and sc: "sc_scale sc = 1 / handle_zeros_in_scale (Max (set (map the_fin a)) - Min (set (map the_fin a)))"
    by simp_all
  have "Min (set (map the_fin a)) \<le> Max (set (map the_fin a))"
    using ne by (intro Min_le Max_in) simp_all
  then have "0 < handle_zeros_in_scale (Max (set (map the_fin a)) - Min (set (map the_fin a)))"
    by (simp add: handle_zeros_in_scale_def)
  with sc show ?thesis by simp
qed

lemma scaled_value:
  assumes "scaler_fit a = Inr sc"
  shows "x * sc_scale sc + sc_min sc = (x - Min (set (map the_fin a))) * sc_scale sc"
proof -
  have "sc_min sc = - (Min (set (map the_fin a)) * sc_scale sc)"
    using scaler_fit_Inr [OF assms] by blast
  then show ?thesis by (simp add: algebra_simps)
qed

lemma scaled_in_unit:
  assumes fit: "scaler_fit a = Inr sc"
    and lo: "Min (set (map the_fin a)) \<le> x" and hi: "x \<le> Max (set (map the_fin a))"
  shows "0 \<le> x * sc_scale sc + sc_min sc \<and> x * sc_scale sc + sc_min sc \<le> 1"
proof -
  let ?lo = "Min (set (map the_fin a))" and ?hi = "Max (set (map the_fin a))"
  have pos: "0 < sc_scale sc" using fit by (rule scaler_scale_pos)
  have eq: "x * sc_scale sc + sc_min sc = (x - ?lo) * sc_scale sc"
    using fit by (rule scaled_value)
  have sc: "sc_scale sc = 1 / handle_zeros_in_scale (?hi - ?lo)"
    using scaler_fit_Inr [OF fit] by simp
  have "0 \<le> (x - ?lo) * sc_scale sc" using lo pos by simp
  moreover have "(x - ?lo) * sc_scale sc \<le> 1"
  proof (cases "?hi = ?lo")
    case True
    with lo hi have "x = ?lo" by simp
    then show ?thesis by simp
  next
    case False
    with lo hi have d: "0 < ?hi - ?lo" by simp
    with sc have "(x - ?lo) * sc_scale sc = (x - ?lo) / (?hi - ?lo)"
      by (simp add: handle_zeros_in_scale_def)
    also have "\<dots> \<le> 1" using d hi by (simp add: divide_le_eq)
    finally show ?thesis .
  qed
  ultimately show ?thesis using eq by simp
qed











section \<open>Failing fits\<close>

lemma fit_invalid_parameter:
  assumes "\<not> (0 \<le> contamination d \<and> contamination d \<le> 0.5)"
  shows "fit h d X = (Inl InvalidParameter, d)"
  using assms by (simp add: fit_def check_params_def)

lemma fit_invalid_input:
  assumes "0 \<le> contamination d" "contamination d \<le> 0.5" "\<not> well_formed X"
  shows "fit h d X = (Inl InvalidInput, d)"
  using assms by (simp add: fit_def check_params_def check_array_def)

lemma example_refit_eq:
  "example_refit =
     (Inl LibraryError,
      \<lparr>contamination = 1 / 10,
       model = \<lparr>fpr = 1 / 100, n_jobs = 1, n_neighbors = 2, p_param = 2,
                neigh = Some \<lparr>bi_k = 2, bi_train = [[5]]\<rparr>,
                emp_threshold = None\<rparr>,
       anomaly_score_attr = Some [Fin (- ln 2), Fin (- ln 2), Fin 0],
       threshold_attr = Some (Num (Fin (- (ln 2 / 5)))),
       scaler_attr = Some \<lparr>sc_scale = 1 / ln 2, sc_min = 1\<rparr>\<rparr>)"
  by (simp add: example_refit_def example_fitted_eq fit_def check_params_def
      library_defs scoring_defs)

text \<open>
  Claim C7 as stated fails: the example detector, fitted on three points with two
  neighbours, is fitted again on a single point. The index is rebuilt and stored, the scoring
  step then raises because two neighbours are asked of one point, and the detector is left
  with the new index beside the old training scores, threshold and normalizer.
\<close>

theorem failed_fit_counterexample:
  "fst example_refit = Inl LibraryError \<and>
   snd example_refit \<noteq> example_fitted \<and>
   neigh (model (snd example_refit)) = Some \<lparr>bi_k = 2, bi_train = [[5]]\<rparr> \<and>
   neigh (model example_fitted) = Some \<lparr>bi_k = 2, bi_train = [[0], [1], [3]]\<rparr> \<and>
   threshold_attr (snd example_refit) = threshold_attr example_fitted \<and>
   scaler_attr (snd example_refit) = scaler_attr example_fitted"
  by (simp add: example_refit_eq example_fitted_eq)

text \<open>
  Claim C7, amended. A \<open>fit\<close> call that fails in parameter validation or in data
  validation leaves the detector exactly as it was, and a \<open>fit\<close> call that succeeds
  replaces the model, the training scores, the threshold and the normalizer together, each
  computed from the new training matrix.
\<close>

theorem fit_validation_failure_keeps_state:
  "(\<not> (0 \<le> contamination d \<and> contamination d \<le> 0.5) \<longrightarrow>
      fit h d X = (Inl InvalidParameter, d))
   \<and> (0 \<le> contamination d \<and> contamination d \<le> 0.5 \<and> \<not> well_formed X \<longrightarrow>
      fit h d X = (Inl InvalidInput, d))
   \<and> (\<forall>u d1. fit h d X = (Inr u, d1) \<longrightarrow>
        (\<exists>m a t sc. fit_hook h (model d) X = Inr m \<and> anomaly_score_hook h m X = Inr a \<and>
           np_percentile a (100 * (1 - contamination d)) = Inr t \<and> scaler_fit a = Inr sc \<and>
           d1 = d\<lparr>model := m, anomaly_score_attr := Some a, threshold_attr := Some t,
                  scaler_attr := Some sc\<rparr>))"
proof (intro conjI allI impI)
  assume "\<not> (0 \<le> contamination d \<and> contamination d \<le> 0.5)"
  then show "fit h d X = (Inl InvalidParameter, d)"
    by (rule fit_invalid_parameter)
next
  assume "0 \<le> contamination d \<and> contamination d \<le> 0.5 \<and> \<not> well_formed X"
  then show "fit h d X = (Inl InvalidInput, d)"
    by (simp add: fit_invalid_input)
next
  fix u d1
  assume "fit h d X = (Inr u, d1)"
  from fit_success [OF this]
  show "\<exists>m a t sc. fit_hook h (model d) X = Inr m \<and> anomaly_score_hook h m X = Inr a \<and>
           np_percentile a (100 * (1 - contamination d)) = Inr t \<and> scaler_fit a = Inr sc \<and>
           d1 = d\<lparr>model := m, anomaly_score_attr := Some a, threshold_attr := Some t,
                  scaler_attr := Some sc\<rparr>"
    by blast
qed

theorem fit_validation_failure_keeps_state_witness:
  "\<not> (0 \<le> contamination (example_fitted\<lparr>contamination := 0.6\<rparr>) \<and>
       contamination (example_fitted\<lparr>contamination := 0.6\<rparr>) \<le> 0.5) \<and>
   fit (knn_subtype brute_library) (example_fitted\<lparr>contamination := 0.6\<rparr>) example_train
     = (Inl InvalidParameter, example_fitted\<lparr>contamination := 0.6\<rparr>) \<and>
   0 \<le> contamination example_fitted \<and> contamination example_fitted \<le> 0.5 \<and>
   \<not> well_formed [[0], [1, 2]] \<and>
   fit (knn_subtype brute_library) example_fitted [[0], [1, 2]] = (Inl InvalidInput, example_fitted) \<and>
   fit (knn_subtype brute_library) example_detector example_train = (Inr (), example_fitted) \<and>
   example_fitted =
     example_detector\<lparr>model := model example_fitted,
       anomaly_score_attr := Some [Fin (- ln 2), Fin (- ln 2), Fin 0],
       threshold_attr := Some (Num (Fin (- (ln 2 / 5)))),
       scaler_attr := Some \<lparr>sc_scale = 1 / ln 2, sc_min = 1\<rparr>\<rparr>"
proof -
  let ?h = "knn_subtype brute_library"
  let ?bad = "example_fitted\<lparr>contamination := 0.6\<rparr>"
  have a: "\<not> (0 \<le> contamination ?bad \<and> contamination ?bad \<le> 0.5)"
    by simp
  have b: "0 \<le> contamination example_fitted \<and> contamination example_fitted \<le> 0.5 \<and>
           \<not> well_formed [[0], [1, 2]]"
    by (simp add: example_fitted_eq well_formed_def n_features_of_def)
  have c: "fit ?h example_detector example_train = (Inr (), example_fitted)"
    by (simp add: example_fit example_fitted_eq)
  have "fit ?h ?bad example_train = (Inl InvalidParameter, ?bad)"
    using fit_validation_failure_keeps_state [of ?bad ?h example_train] a by blast
  moreover have "fit ?h example_fitted [[0], [1, 2]] = (Inl InvalidInput, example_fitted)"
    using fit_validation_failure_keeps_state [of example_fitted ?h "[[0], [1, 2]]"] b by blast
  moreover from fit_validation_failure_keeps_state [of example_detector ?h example_train] c
  obtain m s t sc where
    "example_fitted = example_detector\<lparr>model := m, anomaly_score_attr := Some s,
       threshold_attr := Some t, scaler_attr := Some sc\<rparr>"
    by blast
  then have "example_fitted =
     example_detector\<lparr>model := model example_fitted,
       anomaly_score_attr := Some [Fin (- ln 2), Fin (- ln 2), Fin 0],
       threshold_attr := Some (Num (Fin (- (ln 2 / 5)))),
       scaler_attr := Some \<lparr>sc_scale = 1 / ln 2, sc_min = 1\<rparr>\<rparr>"
    by (simp add: example_fitted_eq example_detector_def new_detector_def)
  ultimately show ?thesis using a b c by simp
qed

text \<open>
  The estimator template checks the contamination parameter before anything else: on a
  value outside \<open>[0, 0.5]\<close> the outcome does not depend on the subtype or on the matrix, and
  the detector, with the subtype's model in it, is returned untouched.
\<close>

lemma fit_rejects_contamination_first:
  assumes "c < 0 \<or> 0.5 < c"
  shows "fit h (d\<lparr>contamination := c\<rparr>) X = (Inl InvalidParameter, d\<lparr>contamination := c\<rparr>)"
  using assms by (intro fit_invalid_parameter) auto

text \<open>
  Claim C4 on \<open>EmpiricalOutlierDetector\<close>: its \<open>fit\<close> has no parameter check. With the
  false positive rate 0.6 it validates the matrix, builds and stores the index and
  returns normally, with the 40th percentile of the training scores as threshold.
\<close>

theorem emp_fit_accepts_invalid_fpr:
  "fpr example_fpr_06 = 0.6 \<and>
   emp_fit brute_library example_fpr_06 example_train =
     (Inr (),
      \<lparr>fpr = 0.6, n_jobs = 1, n_neighbors = 2, p_param = 2,
       neigh = Some \<lparr>bi_k = 2, bi_train = [[0], [1], [3]]\<rparr>,
       emp_threshold = Some (Num (Fin (- ln 2)))\<rparr>)"
  by (simp add: example_fpr_06_def example_train_def emp_fit_def library_defs scoring_defs)

text \<open>
  On the estimator template a detector that no fit has completed on keeps \<open>_scaler\<close>
  unassigned, since \<open>fit\<close> assigns it last, and every scoring call raises
  \<open>NotFittedError\<close>.
\<close>

lemma failed_fit_keeps_scaler:
  assumes "fit h d X = (Inl e, d1)"
  shows "scaler_attr d1 = scaler_attr d"
  using assms
  by (auto simp: fit_def check_params_def check_array_def get_threshold_def Let_def
      split: sum.splits if_splits)

lemma unfitted_template_raises:
  assumes "scaler_attr d = None"
  shows "anomaly_score h d X n = Inl NotFittedError \<and> predict h d X t = Inl NotFittedError"
  using assms by (simp add: anomaly_score_def predict_def)

lemma fresh_empirical_raises:
  "emp_anomaly_score lib (new_empirical f j k q) X = Inl NotFittedError"
  by (simp add: emp_anomaly_score_def new_empirical_def)

text \<open>
  Claim C6 on \<open>EmpiricalOutlierDetector\<close>: its \<open>fit\<close> stores the index before it scores
  the training set and takes the percentile. With the false positive rate 1.5 the
  percentile is asked at -50 and numpy raises, so the fit fails; the index stays, and
  \<open>anomaly_score\<close> then returns scores instead of raising \<open>NotFittedError\<close>.
\<close>

theorem emp_scores_after_failed_fit:
  "emp_anomaly_score brute_library example_fpr_15 [[3]] = Inl NotFittedError \<and>
   fst (emp_fit brute_library example_fpr_15 example_train) = Inl LibraryError \<and>
   emp_threshold example_half_fitted = None \<and>
   emp_anomaly_score brute_library example_half_fitted [[3]] = Inr [Fin 0]"
  by (simp add: example_half_fitted_def example_fpr_15_def example_train_def emp_fit_def
      library_defs scoring_defs)

section \<open>The percentile threshold\<close>

lemma outlier_count_labels:
  "outlier_count (map (label (Num t)) a) = length (filter (\<lambda>v. t < v) (sort a))"
proof -
  have "filter (\<lambda>y. y = - 1) (map (label (Num t)) a)
          = map (label (Num t)) (filter (\<lambda>v. t < v) a)"
    by (induction a) (auto simp: label_def)
  then have "outlier_count (map (label (Num t)) a) = length (filter (\<lambda>v. t < v) a)"
    by (simp add: outlier_count_def)
  also have "\<dots> = length (filter (\<lambda>v. t < v) (sort a))"
    by (simp add: filter_sort)
  finally show ?thesis .
qed

lemma count_above_le:
  fixes s :: "'a::linorder list"
  assumes "sorted s" "lo < length s" "s ! lo \<le> t"
  shows "length (filter (\<lambda>v. t < v) s) \<le> length s - (lo + 1)"
proof -
  have "\<forall>x\<in>set (take (lo + 1) s). \<not> t < x"
  proof
    fix x assume "x \<in> set (take (lo + 1) s)"
    then obtain i where i: "i < lo + 1" "i < length s" "x = s ! i"
      by (auto simp: in_set_conv_nth)
    then have "s ! i \<le> s ! lo"
      using assms(1,2) by (intro sorted_nth_mono) simp_all
    with assms(3) i show "\<not> t < x" by simp
  qed
  then have "filter (\<lambda>v. t < v) (take (lo + 1) s) = []" by simp
  then have "filter (\<lambda>v. t < v) s = filter (\<lambda>v. t < v) (drop (lo + 1) s)"
    by (metis append_take_drop_id filter_append self_append_conv2)
  moreover have "length (filter (\<lambda>v. t < v) (drop (lo + 1) s)) \<le> length (drop (lo + 1) s)"
    by (rule length_filter_le)
  ultimately show ?thesis by simp
qed

lemma count_above_eq:
  fixes s :: "'a::linorder list"
  assumes "sorted s" "lo < length s" "s ! lo \<le> t"
    and above: "\<forall>i. lo < i \<and> i < length s \<longrightarrow> t < s ! i"
  shows "length (filter (\<lambda>v. t < v) s) = length s - (lo + 1)"
proof -
  have "\<forall>x\<in>set (take (lo + 1) s). \<not> t < x"
  proof
    fix x assume "x \<in> set (take (lo + 1) s)"
    then obtain i where i: "i < lo + 1" "i < length s" "x = s ! i"
      by (auto simp: in_set_conv_nth)
    then have "s ! i \<le> s ! lo"
      using assms(1,2) by (intro sorted_nth_mono) simp_all
    with assms(3) i show "\<not> t < x" by simp
  qed
  then have lower: "filter (\<lambda>v. t < v) (take (lo + 1) s) = []" by simp
  have "\<forall>x\<in>set (drop (lo + 1) s). t < x"
  proof
    fix x assume "x \<in> set (drop (lo + 1) s)"
    then obtain i where i: "i < length s - (lo + 1)" "x = s ! (lo + 1 + i)"
      by (auto simp: in_set_conv_nth)
    with above show "t < x" by simp
  qed
  then have upper: "filter (\<lambda>v. t < v) (drop (lo + 1) s) = drop (lo + 1) s" by simp
  have "filter (\<lambda>v. t < v) s
          = filter (\<lambda>v. t < v) (take (lo + 1) s) @ filter (\<lambda>v. t < v) (drop (lo + 1) s)"
    by (metis append_take_drop_id filter_append)
  with lower upper show ?thesis by simp
qed

lemma lerp_bounds:
  assumes "x \<le> y" "0 \<le> f" "f < 1"
  shows "lerp (Fin x) (Fin y) f = Num (Fin (x + f * (y - x)))"
    and "Fin x \<le> Fin (x + f * (y - x))"
    and "x < y \<Longrightarrow> 0 < f \<Longrightarrow> Fin (x + f * (y - x)) < Fin y"
proof -
  show "lerp (Fin x) (Fin y) f = Num (Fin (x + f * (y - x)))"
    by (rule lerp_Fin)
  have "0 \<le> f * (y - x)" using assms by simp
  then show "Fin x \<le> Fin (x + f * (y - x))" by simp
  assume "x < y" "0 < f"
  then have "f * (y - x) < 1 * (y - x)" using assms(3) by (intro mult_strict_right_mono) simp_all
  then show "Fin (x + f * (y - x)) < Fin y"
    by (simp add: less_npfloat_def)
qed

lemma index_arith:
  fixes c :: real
  assumes "0 \<le> c" "c \<le> 1 / 2" "0 < n"
  defines "h \<equiv> virtual_index n (100 * (1 - c))"
  shows "0 \<le> h" "nat \<lfloor>h\<rfloor> < n" "n - (nat \<lfloor>h\<rfloor> + 1) = nat \<lceil>c * (real n - 1)\<rceil>"
    "\<bar>real (nat \<lceil>c * (real n - 1)\<rceil>) - c * real n\<bar> < 1"
proof -
  have "(real n - 1) * (100 * (1 - c)) / 100 = (real n - 1) * (1 - c)"
    by simp
  then have h: "h = (real n - 1) - c * (real n - 1)"
    by (simp add: h_def virtual_index_def algebra_simps)
  have n1: "0 \<le> real n - 1" using assms(3) by simp
  have cn: "0 \<le> c * (real n - 1)" "c * (real n - 1) \<le> real n - 1"
    using assms(1,2) n1 by (simp_all add: mult_left_le_one_le)
  show "0 \<le> h" using h cn by simp
  have fl: "\<lfloor>h\<rfloor> = int n - 1 - \<lceil>c * (real n - 1)\<rceil>"
  proof -
    have "h = of_int (int n - 1) + (- (c * (real n - 1)))" using h by simp
    then have "\<lfloor>h\<rfloor> = (int n - 1) + \<lfloor>- (c * (real n - 1))\<rfloor>"
      by (metis add.commute floor_add_int)
    then show ?thesis by (simp add: floor_minus)
  qed
  have ce0: "0 \<le> \<lceil>c * (real n - 1)\<rceil>" using cn(1) by (simp add: ceiling_def)
  have "c * (real n - 1) \<le> of_int (int n - 1)" using cn(2) by simp
  then have ce1: "\<lceil>c * (real n - 1)\<rceil> \<le> int n - 1"
    by (rule ceiling_le)
  show "nat \<lfloor>h\<rfloor> < n" using fl ce0 ce1 assms(3) by linarith
  show "n - (nat \<lfloor>h\<rfloor> + 1) = nat \<lceil>c * (real n - 1)\<rceil>"
    using fl ce0 ce1 assms(3) by linarith
  have "of_int \<lceil>c * (real n - 1)\<rceil> - 1 < c * (real n - 1)"
    "c * (real n - 1) \<le> of_int \<lceil>c * (real n - 1)\<rceil>"
    using ceiling_correct [of "c * (real n - 1)"] by simp_all
  moreover have "real (nat \<lceil>c * (real n - 1)\<rceil>) = of_int \<lceil>c * (real n - 1)\<rceil>"
    using ce0 by simp
  moreover have "c * real n = c * (real n - 1) + c" by (simp add: algebra_simps)
  ultimately show "\<bar>real (nat \<lceil>c * (real n - 1)\<rceil>) - c * real n\<bar> < 1"
    using assms(1,2) by linarith
qed


lemma is_fin_Fin:
  assumes "is_fin v"
  obtains x where "v = Fin x"
  using assms by (cases v) (simp_all add: is_fin_def)

lemma percentile_count:
  assumes ne: "a \<noteq> []" and fin: "list_all is_fin a"
    and c: "0 \<le> c" "c \<le> 1 / 2"
    and pct: "np_percentile a (100 * (1 - c)) = Inr t"
  obtains u where "t = Num u"
    and "length (filter (\<lambda>v. u < v) (sort a)) \<le> nat \<lceil>c * (real (length a) - 1)\<rceil>"
    and "distinct a \<Longrightarrow>
           length (filter (\<lambda>v. u < v) (sort a)) = nat \<lceil>c * (real (length a) - 1)\<rceil>"
proof -
  define n where "n = length a"
  define s where "s = sort a"
  define h where "h = virtual_index n (100 * (1 - c))"
  define lo where "lo = nat \<lfloor>h\<rfloor>"
  define hi where "hi = min (lo + 1) (n - 1)"
  define f where "f = h - real lo"
  have n: "0 < n" using ne by (simp add: n_def)
  have h0: "0 \<le> h" and lo: "lo < n" and cnt: "n - (lo + 1) = nat \<lceil>c * (real n - 1)\<rceil>"
    using index_arith [OF c n] by (simp_all add: h_def lo_def)
  have f: "0 \<le> f" "f < 1"
    using h0 by (simp_all add: f_def lo_def) linarith+
  have q: "0 \<le> 100 * (1 - c)" "100 * (1 - c) \<le> 100" using c by simp_all
  have t: "t = lerp (s ! lo) (s ! hi) f"
    using pct ne q
    by (simp add: np_percentile_def Let_def s_def h_def lo_def hi_def f_def n_def)
  have len: "length s = n" and sorted: "sorted s" by (simp_all add: s_def n_def)
  have hi: "lo \<le> hi" "hi < n" using lo by (simp_all add: hi_def)
  have all_fin: "\<And>i. i < n \<Longrightarrow> is_fin (s ! i)"
    using fin len by (metis list_all_iff nth_mem s_def set_sort)
  obtain x where x: "s ! lo = Fin x" using all_fin [OF lo] by (rule is_fin_Fin)
  obtain y where y: "s ! hi = Fin y" using all_fin [OF hi(2)] by (rule is_fin_Fin)
  have "s ! lo \<le> s ! hi" using sorted hi len by (intro sorted_nth_mono) simp_all
  then have xy: "x \<le> y" using x y by simp
  define u where "u = Fin (x + f * (y - x))"
  have tu: "t = Num u" using lerp_bounds(1) [OF xy f] x y t by (simp add: u_def)
  have low: "s ! lo \<le> u" using lerp_bounds(2) [OF xy f] x by (simp add: u_def)
  have "length (filter (\<lambda>v. u < v) s) \<le> length s - (lo + 1)"
    using sorted lo low len by (intro count_above_le) simp_all
  then have le: "length (filter (\<lambda>v. u < v) (sort a)) \<le> nat \<lceil>c * (real (length a) - 1)\<rceil>"
    using cnt len by (simp add: s_def n_def)
  have eq: "length (filter (\<lambda>v. u < v) (sort a)) = nat \<lceil>c * (real (length a) - 1)\<rceil>"
    if "distinct a"
  proof -
    from that have strict: "sorted_wrt (<) s" by (simp add: strict_sorted_iff s_def)
    have above: "\<forall>i. lo < i \<and> i < length s \<longrightarrow> u < s ! i"
    proof (intro allI impI)
      fix i assume i: "lo < i \<and> i < length s"
      then have "lo + 1 \<le> n - 1" using len by linarith
      then have hi_eq: "hi = lo + 1" by (simp add: hi_def)
      have "s ! hi \<le> s ! i" using sorted i hi_eq by (intro sorted_nth_mono) simp_all
      moreover have "u < s ! hi"
      proof (cases "f = 0")
        case True
        then have "u = s ! lo" using x by (simp add: u_def)
        moreover have "s ! lo < s ! hi"
          using sorted_wrt_nth_less [OF strict, of lo hi] hi_eq hi len by simp
        ultimately show ?thesis by simp
      next
        case False
        have "s ! lo < s ! hi"
          using sorted_wrt_nth_less [OF strict, of lo hi] hi_eq hi len by simp
        then have "x < y" using x y by (simp add: less_npfloat_def)
        moreover have "0 < f" using False f by simp
        ultimately show ?thesis using lerp_bounds(3) [OF xy f] y by (simp add: u_def)
      qed
      ultimately show "u < s ! i" by simp
    qed
    have "length (filter (\<lambda>v. u < v) s) = length s - (lo + 1)"
      using sorted lo low above len by (intro count_above_eq) simp_all
    then show ?thesis using cnt len by (simp add: s_def n_def)
  qed
  from tu le eq show ?thesis by (rule that)
qed

lemma emp_fit_success:
  assumes "emp_fit lib e X = (Inr u, e1)"
  shows "\<exists>s t. emp_anomaly_score lib e1 X = Inr s \<and>
               np_percentile s (100 * (1 - fpr e)) = Inr t \<and> emp_threshold e1 = Some t"
proof -
  from assms obtain idx s t where
    *: "well_formed X" "emp_anomaly_score lib (e\<lparr>neigh := Some idx\<rparr>) X = Inr s"
       "np_percentile s (100 * (1 - fpr e)) = Inr t"
       "e1 = e\<lparr>neigh := Some idx, emp_threshold := Some t\<rparr>"
    by (auto simp: emp_fit_def check_array_def Let_def split: sum.splits if_splits)
  have "emp_anomaly_score lib e1 X = emp_anomaly_score lib (e\<lparr>neigh := Some idx\<rparr>) X"
    using *(4) by (simp add: emp_anomaly_score_def split: sum.splits)
  with * show ?thesis by simp
qed

lemma example_emp_fit:
  "emp_fit brute_library example_params example_train =
     (Inr (),
      \<lparr>fpr = 1 / 100, n_jobs = 1, n_neighbors = 2, p_param = 2,
       neigh = Some \<lparr>bi_k = 2, bi_train = [[0], [1], [3]]\<rparr>,
       emp_threshold = Some (Num (Fin (- (ln 2 / 50))))\<rparr>)"
  by (simp add: example_params_def example_train_def emp_fit_def library_defs scoring_defs)

lemma example_emp_fitted_eq:
  "example_emp_fitted =
     \<lparr>fpr = 1 / 100, n_jobs = 1, n_neighbors = 2, p_param = 2,
      neigh = Some \<lparr>bi_k = 2, bi_train = [[0], [1], [3]]\<rparr>,
      emp_threshold = Some (Num (Fin (- (ln 2 / 50))))\<rparr>"
  by (simp add: example_emp_fitted_def example_emp_fit)

lemma example_four_fit:
  "fit (knn_subtype brute_library) example_half example_four =
     (Inr (),
      \<lparr>contamination = 1 / 2,
       model = \<lparr>fpr = 1 / 100, n_jobs = 1, n_neighbors = 2, p_param = 2,
                neigh = Some \<lparr>bi_k = 2, bi_train = [[0], [1], [2], [3]]\<rparr>,
                emp_threshold = None\<rparr>,
       anomaly_score_attr = Some [Fin (- ln 2), Fin (- ln 2), Fin (- ln 2), Fin (- ln 2)],
       threshold_attr = Some (Num (Fin (- ln 2))),
       scaler_attr = Some \<lparr>sc_scale = 1, sc_min = ln 2\<rparr>\<rparr>)"
  by (simp add: example_half_def example_params_def example_four_def
      template_defs library_defs scoring_defs)

lemma example_four_fitted_eq:
  "example_four_fitted =
     \<lparr>contamination = 1 / 2,
      model = \<lparr>fpr = 1 / 100, n_jobs = 1, n_neighbors = 2, p_param = 2,
               neigh = Some \<lparr>bi_k = 2, bi_train = [[0], [1], [2], [3]]\<rparr>,
               emp_threshold = None\<rparr>,
      anomaly_score_attr = Some [Fin (- ln 2), Fin (- ln 2), Fin (- ln 2), Fin (- ln 2)],
      threshold_attr = Some (Num (Fin (- ln 2))),
      scaler_attr = Some \<lparr>sc_scale = 1, sc_min = ln 2\<rparr>\<rparr>"
  by (simp add: example_four_fitted_def example_four_fit)

text \<open>
  Claim C2 as stated fails in its second half: four equally spaced training points,
  scored with two neighbours, all get the score \<open>-ln 2\<close>. With contamination 0.5 the
  threshold is their median \<open>-ln 2\<close>, no training sample lies above it, and the flagged
  fraction 0 differs from 0.5 by two samples out of four.
\<close>

theorem flagged_fraction_counterexample:
  "fst (fit (knn_subtype brute_library) example_half example_four) = Inr () \<and>
   contamination example_half = 1 / 2 \<and>
   threshold_attr example_four_fitted = Some (Num (Fin (- ln 2))) \<and>
   predict (knn_subtype brute_library) example_four_fitted example_four None = Inr [1, 1, 1, 1] \<and>
   outlier_count [1, 1, 1, 1] = 0 \<and>
   \<not> \<bar>real (outlier_count [1, 1, 1, 1]) / 4 - 1 / 2\<bar> \<le> 1 / 4"
proof (intro conjI)
  show "fst (fit (knn_subtype brute_library) example_half example_four) = Inr ()"
    by (simp add: example_four_fit)
  show "contamination example_half = 1 / 2"
    by (simp add: example_half_def new_detector_def)
  show "threshold_attr example_four_fitted = Some (Num (Fin (- ln 2)))"
    by (simp add: example_four_fitted_eq)
  show "predict (knn_subtype brute_library) example_four_fitted example_four None
          = Inr [1, 1, 1, 1]"
    by (simp add: example_four_fitted_eq example_four_def predict_def anomaly_score_def
        label_def library_defs scoring_defs)
  show "outlier_count [1, 1, 1, 1] = 0"
    by (simp add: outlier_count_def)
  show "\<not> \<bar>real (outlier_count [1, 1, 1, 1]) / 4 - 1 / 2\<bar> \<le> 1 / 4"
    by (simp add: outlier_count_def)
qed

text \<open>
  Claim C2, amended. After a successful fit the threshold is the \<open>100 * (1 - c)\<close>
  percentile, with linear interpolation, of the training scores, and when the training
  scores are pairwise distinct the fraction of training samples that \<open>predict\<close> flags at
  that threshold is within one sample of \<open>c\<close>. The k-nearest-neighbour detector's own
  \<open>fit\<close> sets its threshold to the same percentile of its training scores, at its false
  positive rate.
\<close>

theorem threshold_is_percentile:
  assumes fitted: "fit h d X = (Inr u, d1)"
  shows "(\<exists>a t ys. anomaly_score_attr d1 = Some a \<and> threshold_attr d1 = Some t \<and>
           np_percentile a (100 * (1 - contamination d)) = Inr t \<and>
           predict h d1 X None = Inr ys \<and> length ys = length a \<and>
           (distinct a \<longrightarrow>
              \<bar>real (outlier_count ys) / real (length a) - contamination d\<bar>
                \<le> 1 / real (length a)))
         \<and> (\<forall>v e1. emp_fit lib e X' = (Inr v, e1) \<longrightarrow>
              (\<exists>s t. emp_anomaly_score lib e1 X' = Inr s \<and>
                     np_percentile s (100 * (1 - fpr e)) = Inr t \<and> emp_threshold e1 = Some t))"
proof -
  from fit_success [OF fitted] obtain m a t sc where
    *: "0 \<le> contamination d" "contamination d \<le> 0.5" "well_formed X"
       "anomaly_score_hook h m X = Inr a"
       "np_percentile a (100 * (1 - contamination d)) = Inr t" "scaler_fit a = Inr sc"
       "d1 = d\<lparr>model := m, anomaly_score_attr := Some a, threshold_attr := Some t,
                  scaler_attr := Some sc\<rparr>"
    by blast
  let ?c = "contamination d"
  let ?n = "length a"
  let ?ys = "map (label t) a"
  have ne: "a \<noteq> []" and fin: "list_all is_fin a"
    using scaler_fit_Inr [OF *(6)] by simp_all
  have c: "0 \<le> ?c" "?c \<le> 1 / 2" using *(1,2) by simp_all
  have n: "0 < ?n" using ne by simp
  have pred: "predict h d1 X None = Inr ?ys"
    using *(3,4,7) by (simp add: predict_def anomaly_score_def check_array_def)
  have within: "distinct a \<longrightarrow> \<bar>real (outlier_count ?ys) / real ?n - ?c\<bar> \<le> 1 / real ?n"
  proof
    assume dist: "distinct a"
    from percentile_count [OF ne fin c *(5)] obtain w where
      w: "t = Num w"
         "distinct a \<Longrightarrow> length (filter (\<lambda>v. w < v) (sort a)) = nat \<lceil>?c * (real ?n - 1)\<rceil>"
      by blast
    have cnt: "outlier_count ?ys = nat \<lceil>?c * (real ?n - 1)\<rceil>"
      using w dist by (simp add: outlier_count_labels)
    have "\<bar>real (outlier_count ?ys) - ?c * real ?n\<bar> < 1"
      using index_arith(4) [OF c n] cnt by simp
    then have "\<bar>real (outlier_count ?ys) - ?c * real ?n\<bar> / real ?n < 1 / real ?n"
      using n by (simp add: divide_strict_right_mono)
    moreover have "real (outlier_count ?ys) / real ?n - ?c
                     = (real (outlier_count ?ys) - ?c * real ?n) / real ?n"
      using n by (simp add: field_simps)
    then have "\<bar>real (outlier_count ?ys) - ?c * real ?n\<bar> / real ?n
                     = \<bar>real (outlier_count ?ys) / real ?n - ?c\<bar>"
      by (simp only: abs_divide abs_of_nat)
    ultimately show "\<bar>real (outlier_count ?ys) / real ?n - ?c\<bar> \<le> 1 / real ?n"
      by simp
  qed
  have attrs: "anomaly_score_attr d1 = Some a" "threshold_attr d1 = Some t"
    using *(7) by simp_all
  have len: "length ?ys = length a" by simp
  from attrs *(5) pred len within
  have template: "\<exists>a t ys. anomaly_score_attr d1 = Some a \<and> threshold_attr d1 = Some t \<and>
           np_percentile a (100 * (1 - contamination d)) = Inr t \<and>
           predict h d1 X None = Inr ys \<and> length ys = length a \<and>
           (distinct a \<longrightarrow>
              \<bar>real (outlier_count ys) / real (length a) - contamination d\<bar>
                \<le> 1 / real (length a))"
    by blast
  have "\<forall>v e1. emp_fit lib e X' = (Inr v, e1) \<longrightarrow>
              (\<exists>s t. emp_anomaly_score lib e1 X' = Inr s \<and>
                     np_percentile s (100 * (1 - fpr e)) = Inr t \<and> emp_threshold e1 = Some t)"
    using emp_fit_success by blast
  with template show ?thesis by blast
qed

text \<open>
  Four training points scored with three neighbours: the radii are 8, 6, 7 and 13, the
  scores are pairwise distinct, and with contamination 0.1 the threshold lies between the
  two largest, so that one training point of four is flagged.
\<close>

lemma ln_facts:
  "ln (6::real) < ln 7" "ln (7::real) < ln 8" "ln (8::real) < ln 13" "0 < ln (3::real)"
  by simp_all

lemma example_spread_fit:
  "fit (knn_subtype brute_library) example_three example_spread =
     (Inr (),
      \<lparr>contamination = 1 / 10,
       model = \<lparr>fpr = 1 / 100, n_jobs = 1, n_neighbors = 3, p_param = 2,
                neigh = Some \<lparr>bi_k = 3, bi_train = [[0], [2], [8], [15]]\<rparr>,
                emp_threshold = None\<rparr>,
       anomaly_score_attr =
         Some [Fin (ln 8 - ln 3), Fin (ln 6 - ln 3), Fin (ln 7 - ln 3), Fin (ln 13 - ln 3)],
       threshold_attr = Some (Num (Fin (ln 8 - ln 3 + (7 * ln 13 - 7 * ln 8) / 10))),
       scaler_attr = Some \<lparr>sc_scale = 1 / (ln 13 - ln 6),
                             sc_min = - ((ln 6 - ln 3) / (ln 13 - ln 6))\<rparr>\<rparr>)"
  by (simp add: example_three_def example_spread_def
      template_defs library_defs scoring_defs)

lemma example_spread_fitted_eq:
  "example_spread_fitted =
      \<lparr>contamination = 1 / 10,
       model = \<lparr>fpr = 1 / 100, n_jobs = 1, n_neighbors = 3, p_param = 2,
                neigh = Some \<lparr>bi_k = 3, bi_train = [[0], [2], [8], [15]]\<rparr>,
                emp_threshold = None\<rparr>,
       anomaly_score_attr =
         Some [Fin (ln 8 - ln 3), Fin (ln 6 - ln 3), Fin (ln 7 - ln 3), Fin (ln 13 - ln 3)],
       threshold_attr = Some (Num (Fin (ln 8 - ln 3 + (7 * ln 13 - 7 * ln 8) / 10))),
       scaler_attr = Some \<lparr>sc_scale = 1 / (ln 13 - ln 6),
                             sc_min = - ((ln 6 - ln 3) / (ln 13 - ln 6))\<rparr>\<rparr>"
  by (simp add: example_spread_fitted_def example_spread_fit)

lemma example_spread_labels:
  "map (label (Num (Fin (ln 8 - ln 3 + (7 * ln 13 - 7 * ln 8) / 10))))
     [Fin (ln 8 - ln 3), Fin (ln 6 - ln 3), Fin (ln 7 - ln 3), Fin (ln 13 - ln 3)]
     = [1, 1, 1, - 1]"
proof -
  let ?t = "ln 8 - ln 3 + (7 * ln 13 - 7 * ln 8) / 10 :: real"
  have "ln 8 - ln 3 \<le> ?t" using ln_facts by argo
  moreover have "ln 6 - ln 3 \<le> ?t" using ln_facts by argo
  moreover have "ln 7 - ln 3 \<le> ?t" using ln_facts by argo
  moreover have "\<not> ln 13 - ln 3 \<le> ?t" using ln_facts by argo
  ultimately show ?thesis by (simp add: label_def)
qed

lemma example_spread_predict:
  "predict (knn_subtype brute_library) example_spread_fitted example_spread None
     = Inr [1, 1, 1, - 1]"
proof -
  have raw: "anomaly_score (knn_subtype brute_library) example_spread_fitted example_spread False
          = Inr [Fin (ln 8 - ln 3), Fin (ln 6 - ln 3), Fin (ln 7 - ln 3), Fin (ln 13 - ln 3)]"
    by (simp add: example_spread_fitted_eq example_spread_def anomaly_score_def
        library_defs scoring_defs)
  have thr: "threshold_attr example_spread_fitted
               = Some (Num (Fin (ln 8 - ln 3 + (7 * ln 13 - 7 * ln 8) / 10)))"
    by (simp add: example_spread_fitted_eq)
  show ?thesis
    using example_spread_labels by (simp add: predict_def raw thr)
qed

theorem threshold_is_percentile_witness:
  "fit (knn_subtype brute_library) example_three example_spread
     = (Inr (), example_spread_fitted) \<and>
   contamination example_three = 1 / 10 \<and>
   anomaly_score_attr example_spread_fitted
     = Some [Fin (ln 8 - ln 3), Fin (ln 6 - ln 3), Fin (ln 7 - ln 3), Fin (ln 13 - ln 3)] \<and>
   distinct [Fin (ln 8 - ln 3), Fin (ln 6 - ln 3), Fin (ln 7 - ln 3), Fin (ln 13 - ln 3 :: real)] \<and>
   threshold_attr example_spread_fitted
     = Some (Num (Fin (ln 8 - ln 3 + (7 * ln 13 - 7 * ln 8) / 10))) \<and>
   np_percentile [Fin (ln 8 - ln 3), Fin (ln 6 - ln 3), Fin (ln 7 - ln 3), Fin (ln 13 - ln 3)] 90
     = Inr (Num (Fin (ln 8 - ln 3 + (7 * ln 13 - 7 * ln 8) / 10))) \<and>
   predict (knn_subtype brute_library) example_spread_fitted example_spread None
     = Inr [1, 1, 1, - 1] \<and>
   \<bar>real (outlier_count [1, 1, 1, - 1]) / 4 - 1 / 10\<bar> \<le> 1 / 4 \<and>
   emp_fit brute_library example_params example_train = (Inr (), example_emp_fitted) \<and>
   emp_anomaly_score brute_library example_emp_fitted example_train
     = Inr [Fin (- ln 2), Fin (- ln 2), Fin 0] \<and>
   np_percentile [Fin (- ln 2), Fin (- ln 2), Fin 0] 99 = Inr (Num (Fin (- (ln 2 / 50)))) \<and>
   emp_threshold example_emp_fitted = Some (Num (Fin (- (ln 2 / 50))))"
proof -
  let ?a = "[Fin (ln 8 - ln 3), Fin (ln 6 - ln 3), Fin (ln 7 - ln 3), Fin (ln 13 - ln 3 :: real)]"
  have ef: "emp_fit brute_library example_params example_train = (Inr (), example_emp_fitted)"
    by (simp add: example_emp_fitted_def example_emp_fit)
  have es: "emp_anomaly_score brute_library example_emp_fitted example_train
              = Inr [Fin (- ln 2), Fin (- ln 2), Fin 0]"
    by (simp add: example_emp_fitted_eq example_train_def library_defs scoring_defs)
  have f: "fit (knn_subtype brute_library) example_three example_spread
             = (Inr (), example_spread_fitted)"
    by (simp add: example_spread_fit example_spread_fitted_eq)
  have c: "contamination example_three = 1 / 10"
    by (simp add: example_three_def new_detector_def)
  have a: "anomaly_score_attr example_spread_fitted = Some ?a"
    and t: "threshold_attr example_spread_fitted
              = Some (Num (Fin (ln 8 - ln 3 + (7 * ln 13 - 7 * ln 8) / 10)))"
    by (simp_all add: example_spread_fitted_eq)
  have dist: "distinct ?a" by simp
  note r = threshold_is_percentile [OF f, of brute_library example_params example_train]
  from r ef es
  obtain t' where et: "np_percentile [Fin (- ln 2), Fin (- ln 2), Fin 0] (100 * (1 - fpr example_params))
                         = Inr t'" "emp_threshold example_emp_fitted = Some t'"
    by fastforce
  from et(2) have "t' = Num (Fin (- (ln 2 / 50)))"
    by (simp add: example_emp_fitted_eq)
  with et have emp: "np_percentile [Fin (- ln 2), Fin (- ln 2), Fin 0] 99 = Inr (Num (Fin (- (ln 2 / 50))))"
    "emp_threshold example_emp_fitted = Some (Num (Fin (- (ln 2 / 50))))"
    by (simp_all add: example_params_def new_empirical_def)
  from r a t c
  obtain ys where ys:
    "predict (knn_subtype brute_library) example_spread_fitted example_spread None = Inr ys"
    "np_percentile ?a (100 * (1 - 1 / 10))
       = Inr (Num (Fin (ln 8 - ln 3 + (7 * ln 13 - 7 * ln 8) / 10)))"
    "distinct ?a \<longrightarrow> \<bar>real (outlier_count ys) / real (length ?a) - 1 / 10\<bar> \<le> 1 / real (length ?a)"
    by auto
  from ys(1) have "ys = [1, 1, 1, - 1]"
    by (simp add: example_spread_predict)
  with ys(3) dist have bound: "\<bar>real (outlier_count [1, 1, 1, - 1]) / 4 - 1 / 10\<bar> \<le> 1 / 4"
    by simp
  from ys(2) have pc: "np_percentile ?a 90
                         = Inr (Num (Fin (ln 8 - ln 3 + (7 * ln 13 - 7 * ln 8) / 10)))"
    by simp
  from f c a dist t pc example_spread_predict bound ef es emp show ?thesis by simp
qed

section \<open>Queries at distance zero\<close>

text \<open>
  A fit on training points that hold a point as often as there are neighbours gives those
  points the score minus infinity, and the normalizer rejects it: the fit fails at its
  last step, after the index, the training scores and the threshold have been assigned.
\<close>

lemma template_fit_rejects_duplicates:
  "fst (fit (knn_subtype brute_library) example_detector [[0], [0], [1]]) = Inl LibraryError"
  by (simp add: example_detector_def example_params_def template_defs library_defs scoring_defs)






section \<open>The pipeline\<close>

lemma transform_chain_run_all:
  "transform_chain sts X = run_all (present_transforms sts) X"
  by (induction sts X rule: transform_chain.induct)
     (simp_all add: present_transforms_def split: sum.splits)

lemma delegate_spec_operation:
  "delegate name pl X = spec_operation name pl X"
  by (simp add: delegate_def spec_operation_def transform_chain_run_all split: option.splits)

lemma identity_chain:
  assumes "identity_or_absent sts"
  shows "transform_chain sts X = Inr X"
  using assms
  by (induction sts X rule: transform_chain.induct)
     (simp_all add: identity_or_absent_def identity_transform_def)

lemma identity_fit_chain:
  assumes "identity_or_absent sts"
  shows "fst (fit_chain sts X) = Inr X"
  using assms
proof (induction sts X rule: fit_chain.induct)
  case (1 Xt)
  then show ?case by simp
next
  case (2 name rest Xt)
  then show ?case by (cases "fit_chain rest Xt") (simp_all add: identity_or_absent_def)
next
  case (3 name T rest Xt)
  from "3.prems" have T: "identity_transform T" and rest: "identity_or_absent rest"
    by (simp_all add: identity_or_absent_def)
  from T obtain s1 where s1: "t_fit_transform T (t_state T) Xt = Inr (s1, Xt)"
    by (auto simp: identity_transform_def)
  with "3.IH" [of "(s1, Xt)" s1 Xt] rest show ?case
    by (cases "fit_chain rest Xt") simp_all
qed

lemma example_fit_predict:
  "fit_predict (knn_subtype brute_library) example_detector example_train
     = (Inr [1, 1, - 1], example_fitted)"
proof -
  have f: "fit (knn_subtype brute_library) example_detector example_train = (Inr (), example_fitted)"
    by (simp add: example_fit example_fitted_eq)
  from fit_predict_success [OF f] obtain a t where
    at: "anomaly_score_attr example_fitted = Some a" "threshold_attr example_fitted = Some t"
    "fit_predict (knn_subtype brute_library) example_detector example_train
       = (Inr (map (label t) a), example_fitted)"
    by blast
  from at(1,2) have "a = [Fin (- ln 2), Fin (- ln 2), Fin 0]" "t = Num (Fin (- (ln 2 / 5)))"
    by (simp_all add: example_fitted_eq)
  then have "map (label t) a = [1, 1, - 1]"
    by (simp add: label_def)
  with at(3) show ?thesis by simp
qed

text \<open>
  Claim C10. When every step before the final detector is an identity transform or is
  absent, the pipeline's \<open>fit_predict\<close> returns what the detector's own \<open>fit_predict\<close>
  returns on the same matrix, and leaves the detector in the same state. More generally
  each scoring or detection operation of the pipeline is the spec's operation: the
  transforms that are present, applied in step order with \<open>transform\<close> only, then the
  final detector's operation of the same name.
\<close>

theorem pipeline_fit_predict_identity:
  "(identity_or_absent (steps pl) \<and>
    fe_methods (final_estimator pl) ''fit_predict'' = Some fp \<longrightarrow>
      fst (pipeline_fit_predict pl X) = fst (fp (fe_object (final_estimator pl)) X) \<and>
      fe_object (final_estimator (snd (pipeline_fit_predict pl X)))
        = snd (fp (fe_object (final_estimator pl)) X))
   \<and> transform_chain (steps pl) X = run_all (present_transforms (steps pl)) X
   \<and> pipeline_predict pl X = spec_operation ''predict'' pl X
   \<and> pipeline_anomaly_score pl X = spec_operation ''anomaly_score'' pl X
   \<and> pipeline_detect pl X = spec_operation ''detect'' pl X
   \<and> pipeline_feature_wise_anomaly_score pl X
        = spec_operation ''feature_wise_anomaly_score'' pl X
   \<and> pipeline_analyze pl X = spec_operation ''analyze'' pl X"
proof (intro conjI impI)
  assume a: "identity_or_absent (steps pl) \<and>
             fe_methods (final_estimator pl) ''fit_predict'' = Some fp"
  then have chain: "fst (fit_chain (steps pl) X) = Inr X"
    by (simp add: identity_fit_chain)
  obtain r d1 where m: "fp (fe_object (final_estimator pl)) X = (r, d1)"
    by (cases "fp (fe_object (final_estimator pl)) X")
  obtain sts where c: "fit_chain (steps pl) X = (Inr X, sts)"
    using chain by (cases "fit_chain (steps pl) X") simp
  have "pipeline_fit_predict pl X =
          (r, pl\<lparr>steps := sts, final_estimator := (final_estimator pl)\<lparr>fe_object := d1\<rparr>\<rparr>)"
    using a m c by (simp add: pipeline_fit_predict_def fit_delegate_def)
  then show "fst (pipeline_fit_predict pl X) = fst (fp (fe_object (final_estimator pl)) X)"
    and "fe_object (final_estimator (snd (pipeline_fit_predict pl X)))
           = snd (fp (fe_object (final_estimator pl)) X)"
    using m by simp_all
next
  show "transform_chain (steps pl) X = run_all (present_transforms (steps pl)) X"
    by (rule transform_chain_run_all)
  show "pipeline_predict pl X = spec_operation ''predict'' pl X"
    by (simp add: pipeline_predict_def delegate_spec_operation)
  show "pipeline_anomaly_score pl X = spec_operation ''anomaly_score'' pl X"
    by (simp add: pipeline_anomaly_score_def delegate_spec_operation)
  show "pipeline_detect pl X = spec_operation ''detect'' pl X"
    by (simp add: pipeline_detect_def delegate_spec_operation)
  show "pipeline_feature_wise_anomaly_score pl X
          = spec_operation ''feature_wise_anomaly_score'' pl X"
    by (simp add: pipeline_feature_wise_anomaly_score_def delegate_spec_operation)
  show "pipeline_analyze pl X = spec_operation ''analyze'' pl X"
    by (simp add: pipeline_analyze_def delegate_spec_operation)
qed

theorem pipeline_fit_predict_identity_witness:
  "identity_or_absent (steps example_pipeline) \<and>
   fe_methods (final_estimator example_pipeline) ''fit_predict''
     = Some (fit_predict (knn_subtype brute_library)) \<and>
   fit_predict (knn_subtype brute_library) example_detector example_train
     = (Inr [1, 1, - 1], example_fitted) \<and>
   fst (pipeline_fit_predict example_pipeline example_train) = Inr [1, 1, - 1] \<and>
   fe_object (final_estimator (snd (pipeline_fit_predict example_pipeline example_train)))
     = example_fitted"
proof -
  have a: "identity_or_absent (steps example_pipeline)"
    by (simp add: example_pipeline_def identity_or_absent_def identity_transform_def
        identity_example_def)
  have b: "fe_methods (final_estimator example_pipeline) ''fit_predict''
             = Some (fit_predict (knn_subtype brute_library))"
    by (simp add: example_pipeline_def label_methods_def)
  have c: "fe_object (final_estimator example_pipeline) = example_detector"
    by (simp add: example_pipeline_def)
  from pipeline_fit_predict_identity
    [of example_pipeline "fit_predict (knn_subtype brute_library)" example_train] a b
  have "fst (pipeline_fit_predict example_pipeline example_train)
          = fst (fit_predict (knn_subtype brute_library)
                   (fe_object (final_estimator example_pipeline)) example_train)"
    and "fe_object (final_estimator (snd (pipeline_fit_predict example_pipeline example_train)))
          = snd (fit_predict (knn_subtype brute_library)
                   (fe_object (final_estimator example_pipeline)) example_train)"
    by blast+
  then show ?thesis using a b c example_fit_predict by simp
qed


end
